theory Spec2Isabelle
  imports Main "HOL-Library.Char_ord" "HOL-Library.List_Lexorder" "HOL-Library.Product_Lexorder"
begin

section \<open>The hospital queue store\<close>

text \<open>
  The embedding follows \<^verbatim>\<open>src/database.py\<close> (class \<^verbatim>\<open>HospitalDatabase\<close>) and
  \<^verbatim>\<open>src/hospital_queue.py\<close> (class \<^verbatim>\<open>HospitalQueueSystem\<close>).

  The SQLite file is a record of five tables, each a list of rows in insertion order
  (\<^verbatim>\<open>INSERT\<close> appends, \<^verbatim>\<open>UPDATE ... WHERE c\<close> maps over the rows that satisfy \<^verbatim>\<open>c\<close>,
  \<^verbatim>\<open>cursor.rowcount\<close> is the number of those rows, \<^verbatim>\<open>fetchone()\<close> of a query without
  \<^verbatim>\<open>ORDER BY\<close> is the first such row). Every method takes the store and returns the
  store it leaves behind.

  Modelling boundary.
  \<^item> \<^verbatim>\<open>CURRENT_TIMESTAMP\<close> is the argument \<open>now\<close>, a number of seconds (SQLite stores
    the text \<^verbatim>\<open>YYYY-MM-DD HH:MM:SS\<close>, whose order is the order of the seconds; the
    resolution is one second). \<^verbatim>\<open>datetime.now().strftime(...)\<close> is the argument
    \<open>today\<close>, the formatted local date.
  \<^item> Every method opens a connection of its own (\<^verbatim>\<open>get_connection\<close>), and Python's
    \<^verbatim>\<open>sqlite3\<close> opens a transaction at the first \<^verbatim>\<open>INSERT\<close> or \<^verbatim>\<open>UPDATE\<close>. The store a
    method is given is the committed store. A method called inside another method's
    \<^verbatim>\<open>with\<close> block after that method has written (\<^verbatim>\<open>get_queue_position\<close> inside
    \<^verbatim>\<open>add_patient\<close>, \<^verbatim>\<open>update_daily_statistics\<close> inside \<^verbatim>\<open>complete_consultation\<close>)
    works through a second connection: it reads the committed store, without the
    caller's uncommitted rows, and a write of its own is refused while the caller holds
    the write lock (\<^verbatim>\<open>sqlite3.OperationalError: database is locked\<close>, raised once the
    busy timeout has passed). An exception that leaves a \<^verbatim>\<open>with\<close> block rolls the
    transaction back: the store stays the committed one. The exceptions modelled are
    this one and the ones the table constraints and \<^verbatim>\<open>int()\<close> raise.
  \<^item> Strings are byte strings; the texts the program builds are ASCII.
\<close>

datatype status = waiting | in_consultation | completed | cancelled

datatype action = REGISTERED | CONSULTATION_STARTED | CONSULTATION_COMPLETED | CANCELLED

datatype error = IntegrityError | ValueError | OperationalError

text \<open>Table \<^verbatim>\<open>patients\<close>. \<^verbatim>\<open>NULL\<close> is \<open>None\<close>.\<close>

record patient =
  token_number :: string
  full_name :: string
  age :: "int option"
  gender :: "string option"
  phone_number :: "string option"
  emergency_contact :: "string option"
  medical_condition :: "string option"
  priority_level :: int
  department :: "string option"
  doctor_assigned :: "string option"
  registration_time :: nat
  consultation_start_time :: "nat option"
  consultation_end_time :: "nat option"
  status :: status
  estimated_wait_time :: int
  patient_notes :: "string option"
  is_emergency :: bool
  is_follow_up :: bool

text \<open>Table \<^verbatim>\<open>departments\<close>.\<close>

record department_row =
  department_name :: string
  department_code :: string
  current_wait_time :: int
  active_doctors :: int

text \<open>Table \<^verbatim>\<open>doctors\<close>.\<close>

record doctor =
  doctor_name :: string
  department_id :: "int option"
  specialization :: "string option"
  is_available :: bool
  current_patient_token :: "string option"

text \<open>Table \<^verbatim>\<open>queue_history\<close>.\<close>

record history =
  h_token_number :: string
  h_action :: action
  action_time :: nat
  previous_status :: "status option"
  new_status :: "status option"
  queue_position_before :: "int option"
  queue_position_after :: "int option"
  performed_by :: string
  h_notes :: "string option"

text \<open>
  Table \<^verbatim>\<open>statistics\<close>. The columns \<^verbatim>\<open>avg_wait_time\<close>, \<^verbatim>\<open>max_wait_time\<close> and
  \<^verbatim>\<open>min_wait_time\<close> (floating point: \<^verbatim>\<open>julianday\<close> differences, \<^verbatim>\<open>AVG\<close>, \<^verbatim>\<open>round\<close>),
  \<^verbatim>\<open>peak_hour\<close> (the first row of a grouped query whose order among equal counts SQLite
  leaves open) and \<^verbatim>\<open>department_breakdown\<close> (Python's \<^verbatim>\<open>str\<close> of the row list) are not
  represented.
\<close>

record statistic =
  date :: string
  total_patients :: nat
  emergency_cases :: nat
  regular_cases :: nat
  follow_up_cases :: nat
  doctors_available :: nat

record db =
  patients :: "patient list"
  departments :: "department_row list"
  doctors :: "doctor list"
  queue_history :: "history list"
  statistics :: "statistic list"

text \<open>Python's truth value of an optional string: \<^verbatim>\<open>None\<close> and \<^verbatim>\<open>''\<close> are false.\<close>

fun truthy :: "string option \<Rightarrow> bool" where
  "truthy None = False"
| "truthy (Some s) = (s \<noteq> [])"

text \<open>\<^verbatim>\<open>SELECT ... FROM patients WHERE token_number = ?\<close> followed by \<^verbatim>\<open>fetchone()\<close>.\<close>

definition patient_by_token :: "string \<Rightarrow> db \<Rightarrow> patient option" where
  "patient_by_token token s = find (\<lambda>p. token_number p = token) (patients s)"

subsection \<open>\<^verbatim>\<open>get_queue_position\<close> (database.py 294-320)\<close>

text \<open>
  The \<^verbatim>\<open>WHERE\<close> clause of the counting query, for the priority and registration time
  read from the patient's own row.
\<close>

definition ahead_of :: "int \<Rightarrow> nat \<Rightarrow> patient \<Rightarrow> bool" where
  "ahead_of priority reg_time q \<longleftrightarrow>
     status q = waiting \<and>
     (priority_level q < priority \<or>
      (priority_level q = priority \<and> registration_time q < reg_time))"

definition get_queue_position :: "string \<Rightarrow> db \<Rightarrow> int" where
  "get_queue_position token s =
     (case patient_by_token token s of
        None \<Rightarrow> - 1
      | Some p \<Rightarrow>
          int (length (filter (ahead_of (priority_level p) (registration_time p)) (patients s))) + 1)"

subsection \<open>\<^verbatim>\<open>start_consultation\<close> (database.py 398-441)\<close>

definition start_hit :: "string \<Rightarrow> patient \<Rightarrow> bool" where
  "start_hit token p \<longleftrightarrow> token_number p = token \<and> status p = waiting"

definition bind_doctor :: "string \<Rightarrow> string \<Rightarrow> doctor \<Rightarrow> doctor" where
  "bind_doctor token name d =
     (if doctor_name d = name
      then d\<lparr>current_patient_token := Some token, is_available := False\<rparr>
      else d)"

definition start_consultation :: "nat \<Rightarrow> string \<Rightarrow> string option \<Rightarrow> db \<Rightarrow> bool \<times> db" where
  "start_consultation now token doctor s =
     (let old_position = get_queue_position token s;
          rows_affected = length (filter (start_hit token) (patients s))
      in if rows_affected > 0 then
           (let s1 = s\<lparr>patients :=
                  map (\<lambda>p. if start_hit token p
                            then p\<lparr>status := in_consultation,
                                   consultation_start_time := Some now,
                                   doctor_assigned := doctor\<rparr>
                            else p) (patients s)\<rparr>;
                s2 = s1\<lparr>queue_history := queue_history s1 @
                  [\<lparr>h_token_number = token, h_action = CONSULTATION_STARTED,
                    action_time = now, previous_status = Some waiting,
                    new_status = Some in_consultation,
                    queue_position_before = Some old_position,
                    queue_position_after = None,
                    performed_by = ''system'', h_notes = None\<rparr>]\<rparr>;
                s3 = (if truthy doctor
                      then s2\<lparr>doctors := map (bind_doctor token (the doctor)) (doctors s2)\<rparr>
                      else s2)
            in (True, s3))
         else (False, s))"

subsection \<open>\<^verbatim>\<open>update_daily_statistics\<close> (database.py 642-721)\<close>

text \<open>
  \<^verbatim>\<open>DATE(registration_time) = DATE('now')\<close>: both timestamps fall on the same day, a day
  being 86400 seconds. \<^verbatim>\<open>COUNT(DISTINCT doctor_assigned)\<close> counts the distinct values
  that are not \<^verbatim>\<open>NULL\<close>.
\<close>

definition completed_today :: "nat \<Rightarrow> db \<Rightarrow> patient list" where
  "completed_today now s =
     filter (\<lambda>p. registration_time p div 86400 = now div 86400 \<and> status p = completed)
       (patients s)"

definition assigned_doctors :: "patient list \<Rightarrow> string list" where
  "assigned_doctors ps =
     remdups (concat (map (\<lambda>p. case doctor_assigned p of None \<Rightarrow> [] | Some d \<Rightarrow> [d]) ps))"

definition update_daily_statistics :: "string \<Rightarrow> nat \<Rightarrow> db \<Rightarrow> db" where
  "update_daily_statistics today now s =
     (if length (filter (\<lambda>r. date r = today) (statistics s)) = 0 then
        (let rows = completed_today now s
         in s\<lparr>statistics := statistics s @
              [\<lparr>date = today,
                total_patients = length rows,
                emergency_cases = length (filter (\<lambda>p. priority_level p = 1) rows),
                regular_cases = length (filter (\<lambda>p. priority_level p = 2) rows),
                follow_up_cases = length (filter (\<lambda>p. priority_level p = 3) rows),
                doctors_available = length (assigned_doctors rows)\<rparr>]\<rparr>)
      else s)"

subsection \<open>\<^verbatim>\<open>complete_consultation\<close> (database.py 443-486)\<close>

definition complete_hit :: "string \<Rightarrow> patient \<Rightarrow> bool" where
  "complete_hit token p \<longleftrightarrow> token_number p = token \<and> status p = in_consultation"

definition free_doctor :: "string \<Rightarrow> doctor \<Rightarrow> doctor" where
  "free_doctor name d =
     (if doctor_name d = name
      then d\<lparr>current_patient_token := None, is_available := True\<rparr>
      else d)"

text \<open>
  \<^verbatim>\<open>self.update_daily_statistics()\<close> at line 481, called while the caller's \<^verbatim>\<open>UPDATE\<close>
  is uncommitted. It is the method above on a second connection, given the committed
  store: when a row has today's date it writes nothing and returns; when none has, it
  goes on to its \<^verbatim>\<open>INSERT\<close>, which SQLite refuses.
\<close>

definition update_daily_statistics_locked :: "string \<Rightarrow> nat \<Rightarrow> db \<Rightarrow> error + unit" where
  "update_daily_statistics_locked today now committed =
     (if length (filter (\<lambda>r. date r = today) (statistics committed)) = 0
      then Inl OperationalError
      else Inr ())"

text \<open>
  \<open>Inl\<close> is the exception leaving the method: nothing of the transition is committed.
\<close>

definition complete_consultation ::
  "string \<Rightarrow> nat \<Rightarrow> string \<Rightarrow> db \<Rightarrow> error + (bool \<times> db)" where
  "complete_consultation today now token s =
     (let doctor = (case patient_by_token token s of
                      None \<Rightarrow> None
                    | Some p \<Rightarrow> doctor_assigned p);
          rows_affected = length (filter (complete_hit token) (patients s))
      in if rows_affected > 0 then
           (let s1 = s\<lparr>patients :=
                  map (\<lambda>p. if complete_hit token p
                            then p\<lparr>status := completed, consultation_end_time := Some now\<rparr>
                            else p) (patients s)\<rparr>;
                s2 = s1\<lparr>queue_history := queue_history s1 @
                  [\<lparr>h_token_number = token, h_action = CONSULTATION_COMPLETED,
                    action_time = now, previous_status = Some in_consultation,
                    new_status = Some completed,
                    queue_position_before = None, queue_position_after = None,
                    performed_by = ''system'', h_notes = None\<rparr>]\<rparr>;
                s3 = (if truthy doctor
                      then s2\<lparr>doctors := map (free_doctor (the doctor)) (doctors s2)\<rparr>
                      else s2)
            in case update_daily_statistics_locked today now s of
                 Inl e \<Rightarrow> Inl e
               | Inr u \<Rightarrow> Inr (True, s3))
         else Inr (False, s))"

subsection \<open>\<^verbatim>\<open>cancel_patient\<close> (database.py 488-528)\<close>

definition cancel_patient :: "nat \<Rightarrow> string \<Rightarrow> string option \<Rightarrow> db \<Rightarrow> bool \<times> db" where
  "cancel_patient now token reason s =
     (case patient_by_token token s of
        None \<Rightarrow> (False, s)
      | Some patient \<Rightarrow>
          (let old_status = status patient;
               old_position = (if old_status = waiting
                               then Some (get_queue_position token s) else None);
               rows_affected = length (filter (\<lambda>p. token_number p = token) (patients s))
           in if rows_affected > 0 then
                (let s1 = s\<lparr>patients :=
                       map (\<lambda>p. if token_number p = token then p\<lparr>status := cancelled\<rparr> else p)
                         (patients s)\<rparr>;
                     s2 = s1\<lparr>queue_history := queue_history s1 @
                       [\<lparr>h_token_number = token, h_action = CANCELLED,
                         action_time = now, previous_status = Some old_status,
                         new_status = Some cancelled,
                         queue_position_before = old_position,
                         queue_position_after = None,
                         performed_by = ''system'', h_notes = reason\<rparr>]\<rparr>
                 in (True, s2))
              else (False, s)))"

subsection \<open>\<^verbatim>\<open>calculate_wait_time\<close> (database.py 251-292)\<close>

text \<open>
  The \<^verbatim>\<open>WHERE\<close> clause of the counting query; with a department given the row must
  also carry that department.
\<close>

definition counted_ahead :: "nat \<Rightarrow> int \<Rightarrow> string option \<Rightarrow> patient \<Rightarrow> bool" where
  "counted_ahead now priority dept q \<longleftrightarrow>
     status q = waiting \<and>
     (truthy dept \<longrightarrow> department q = dept) \<and>
     (priority_level q > priority \<or>
      (priority_level q = priority \<and> registration_time q < now))"

definition patients_ahead :: "nat \<Rightarrow> int \<Rightarrow> string option \<Rightarrow> db \<Rightarrow> nat" where
  "patients_ahead now priority dept s =
     length (filter (counted_ahead now priority dept) (patients s))"

definition calculate_wait_time :: "nat \<Rightarrow> int \<Rightarrow> string option \<Rightarrow> db \<Rightarrow> int" where
  "calculate_wait_time now priority dept s =
     (let ahead = patients_ahead now priority dept s;
          base_time = (if priority = 1 then 0 else if priority = 2 then 20 else 10);
          base_time' =
            (if truthy dept then
               (case find (\<lambda>d. Some (department_name d) = dept) (departments s) of
                  None \<Rightarrow> base_time
                | Some d \<Rightarrow> base_time + current_wait_time d)
             else base_time);
          total_wait = base_time' + int ahead * 15
      in min total_wait 240)"

subsection \<open>\<^verbatim>\<open>generate_token\<close> (database.py 164-195)\<close>

text \<open>
  SQLite's \<^verbatim>\<open>LIKE\<close>: in the pattern \<^verbatim>\<open>%\<close> stands for any run of characters and \<^verbatim>\<open>_\<close>
  for one character; every other character matches itself, the ASCII letters without
  regard to case.
\<close>

definition ascii_lower :: "char \<Rightarrow> char" where
  "ascii_lower c =
     (case map_of (zip ''ABCDEFGHIJKLMNOPQRSTUVWXYZ'' ''abcdefghijklmnopqrstuvwxyz'') c of
        None \<Rightarrow> c
      | Some l \<Rightarrow> l)"

fun like :: "string \<Rightarrow> string \<Rightarrow> bool" where
  "like [] t = (t = [])"
| "like (c # cs) [] = (c = CHR ''%'' \<and> like cs [])"
| "like (c # cs) (x # xs) =
     (if c = CHR ''%'' then like cs (x # xs) \<or> like (c # cs) xs
      else (c = CHR ''_'' \<or> ascii_lower c = ascii_lower x) \<and> like cs xs)"

text \<open>\<^verbatim>\<open>ORDER BY token_number DESC LIMIT 1\<close>: the greatest text in byte order.\<close>

fun greatest :: "string list \<Rightarrow> string option" where
  "greatest [] = None"
| "greatest (x # xs) = Some (fold max xs x)"

text \<open>\<^verbatim>\<open>t.split('-')[-1]\<close>: what follows the last hyphen, the whole text if there is none.\<close>

definition last_segment :: "string \<Rightarrow> string" where
  "last_segment t = rev (takeWhile (\<lambda>c. c \<noteq> CHR ''-'') (rev t))"

text \<open>
  \<^verbatim>\<open>int(t)\<close> on a text of ASCII digits; \<open>None\<close> is Python's \<^verbatim>\<open>ValueError\<close>. The segments
  this is applied to are the ones \<^verbatim>\<open>generate_token\<close> wrote, which are of that form;
  the signs, blanks and underscores Python's \<^verbatim>\<open>int\<close> would also read are not modelled.
\<close>

definition digit_val :: "char \<Rightarrow> nat option" where
  "digit_val c = map_of (zip ''0123456789'' [0, 1, 2, 3, 4, 5, 6, 7, 8, 9]) c"

fun read_digits :: "nat \<Rightarrow> string \<Rightarrow> nat option" where
  "read_digits acc [] = Some acc"
| "read_digits acc (c # cs) =
     (case digit_val c of None \<Rightarrow> None | Some d \<Rightarrow> read_digits (10 * acc + d) cs)"

definition py_int :: "string \<Rightarrow> nat option" where
  "py_int t = (if t = [] then None else read_digits 0 t)"

text \<open>\<^verbatim>\<open>f"{n:03d}"\<close>: the decimal digits of \<open>n\<close>, filled with zeros on the left to width 3.\<close>

definition digit_char :: "nat \<Rightarrow> char" where
  "digit_char d = ''0123456789'' ! d"

fun decimal :: "nat \<Rightarrow> string" where
  "decimal n = (if n < 10 then [digit_char n] else decimal (n div 10) @ [digit_char (n mod 10)])"

declare decimal.simps [simp del]

definition format_03d :: "nat \<Rightarrow> string" where
  "format_03d n = replicate (3 - length (decimal n)) CHR ''0'' @ decimal n"

definition token_prefix :: "string \<Rightarrow> string option \<Rightarrow> string" where
  "token_prefix today dept_code =
     (if truthy dept_code then the dept_code else ''HOSP'') @ ''-'' @ today @ ''-''"

definition generate_token :: "string \<Rightarrow> string option \<Rightarrow> db \<Rightarrow> error + string" where
  "generate_token today dept_code s =
     (let prefix = token_prefix today dept_code
      in case greatest (filter (like (prefix @ ''%'')) (map token_number (patients s))) of
           None \<Rightarrow> Inr (prefix @ format_03d 1)
         | Some result \<Rightarrow>
             (case py_int (last_segment result) of
                None \<Rightarrow> Inl ValueError
              | Some last_number \<Rightarrow> Inr (prefix @ format_03d (last_number + 1))))"

subsection \<open>\<^verbatim>\<open>add_patient\<close> (database.py 197-249)\<close>

text \<open>
  The dictionary \<^verbatim>\<open>patient_data\<close>; a missing key is \<open>None\<close>. The position logged with
  the \<^verbatim>\<open>REGISTERED\<close> entry is read by \<^verbatim>\<open>get_queue_position\<close> through a second
  connection, which does not see the row just inserted: it is computed on the committed
  store.
\<close>

record patient_data =
  pd_full_name :: string
  pd_age :: "int option"
  pd_gender :: "string option"
  pd_phone_number :: "string option"
  pd_emergency_contact :: "string option"
  pd_medical_condition :: "string option"
  pd_priority_level :: "int option"
  pd_department :: "string option"
  pd_department_code :: "string option"
  pd_is_follow_up :: bool
  pd_notes :: "string option"

text \<open>
  The constraints of table \<^verbatim>\<open>patients\<close> that the inserted row can break: \<^verbatim>\<open>UNIQUE\<close> on
  \<^verbatim>\<open>token_number\<close>, the \<^verbatim>\<open>CHECK\<close> on \<^verbatim>\<open>gender\<close> and the \<^verbatim>\<open>CHECK\<close> on
  \<^verbatim>\<open>priority_level\<close>. SQLite raises \<^verbatim>\<open>IntegrityError\<close> and inserts nothing.
\<close>

definition insert_allowed :: "patient \<Rightarrow> db \<Rightarrow> bool" where
  "insert_allowed row s \<longleftrightarrow>
     token_number row \<notin> set (map token_number (patients s)) \<and>
     gender row \<in> {None, Some ''Male'', Some ''Female'', Some ''Other''} \<and>
     1 \<le> priority_level row \<and> priority_level row \<le> 3"

definition add_patient :: "string \<Rightarrow> nat \<Rightarrow> patient_data \<Rightarrow> db \<Rightarrow> error + (string \<times> db)" where
  "add_patient today now pd s =
     (case generate_token today (pd_department_code pd) s of
        Inl e \<Rightarrow> Inl e
      | Inr token \<Rightarrow>
          (let priority = (case pd_priority_level pd of None \<Rightarrow> 2 | Some n \<Rightarrow> n);
               estimated_wait = calculate_wait_time now priority (pd_department pd) s;
               row = \<lparr>token_number = token,
                      full_name = pd_full_name pd,
                      age = pd_age pd,
                      gender = pd_gender pd,
                      phone_number = pd_phone_number pd,
                      emergency_contact = pd_emergency_contact pd,
                      medical_condition = pd_medical_condition pd,
                      priority_level = priority,
                      department = pd_department pd,
                      doctor_assigned = None,
                      registration_time = now,
                      consultation_start_time = None,
                      consultation_end_time = None,
                      status = waiting,
                      estimated_wait_time = estimated_wait,
                      patient_notes = pd_notes pd,
                      is_emergency = (pd_priority_level pd = Some 1),
                      is_follow_up = pd_is_follow_up pd\<rparr>
           in if insert_allowed row s then
                (let s1 = s\<lparr>patients := patients s @ [row]\<rparr>;
                     s2 = s1\<lparr>queue_history := queue_history s1 @
                       [\<lparr>h_token_number = token, h_action = REGISTERED,
                         action_time = now, previous_status = None,
                         new_status = Some waiting,
                         queue_position_before = None,
                         queue_position_after = Some (get_queue_position token s),
                         performed_by = ''system'', h_notes = None\<rparr>]\<rparr>
                 in Inr (token, s2))
              else Inl IntegrityError))"

subsection \<open>\<^verbatim>\<open>register_patient\<close> (hospital_queue.py 14-39)\<close>

text \<open>The printing and the \<^verbatim>\<open>current_token\<close> attribute are left out; the token is returned.\<close>

definition register_patient ::
  "string \<Rightarrow> nat \<Rightarrow> string \<Rightarrow> int option \<Rightarrow> string option \<Rightarrow> bool \<Rightarrow> bool \<Rightarrow> string option \<Rightarrow> db
     \<Rightarrow> error + (string \<times> db)" where
  "register_patient today now name age_in condition is_emergency_in is_followup department_in s =
     (let priority = (if is_emergency_in then 1 else if is_followup then 3 else 2)
      in add_patient today now
           \<lparr>pd_full_name = name, pd_age = age_in, pd_gender = None,
            pd_phone_number = None, pd_emergency_contact = None,
            pd_medical_condition = condition, pd_priority_level = Some priority,
            pd_department = department_in, pd_department_code = None,
            pd_is_follow_up = is_followup, pd_notes = None\<rparr> s)"

text \<open>The store \<^verbatim>\<open>init_database\<close> leaves behind on a new file.\<close>

definition default_departments :: "department_row list" where
  "default_departments =
     [\<lparr>department_name = ''Emergency'', department_code = ''ER'', current_wait_time = 15, active_doctors = 3\<rparr>,
      \<lparr>department_name = ''General Medicine'', department_code = ''GM'', current_wait_time = 45, active_doctors = 2\<rparr>,
      \<lparr>department_name = ''Pediatrics'', department_code = ''PED'', current_wait_time = 30, active_doctors = 2\<rparr>,
      \<lparr>department_name = ''Cardiology'', department_code = ''CARD'', current_wait_time = 60, active_doctors = 1\<rparr>,
      \<lparr>department_name = ''Orthopedics'', department_code = ''ORTH'', current_wait_time = 40, active_doctors = 1\<rparr>,
      \<lparr>department_name = ''Dermatology'', department_code = ''DERM'', current_wait_time = 25, active_doctors = 1\<rparr>]"

definition default_doctors :: "doctor list" where
  "default_doctors =
     [\<lparr>doctor_name = ''Dr. Smith'', department_id = Some 1, specialization = Some ''Emergency Medicine'', is_available = True, current_patient_token = None\<rparr>,
      \<lparr>doctor_name = ''Dr. Johnson'', department_id = Some 1, specialization = Some ''Trauma Specialist'', is_available = True, current_patient_token = None\<rparr>,
      \<lparr>doctor_name = ''Dr. Williams'', department_id = Some 2, specialization = Some ''General Physician'', is_available = True, current_patient_token = None\<rparr>,
      \<lparr>doctor_name = ''Dr. Brown'', department_id = Some 3, specialization = Some ''Pediatrician'', is_available = True, current_patient_token = None\<rparr>,
      \<lparr>doctor_name = ''Dr. Davis'', department_id = Some 4, specialization = Some ''Cardiologist'', is_available = True, current_patient_token = None\<rparr>]"

definition init_database :: db where
  "init_database =
     \<lparr>patients = [], departments = default_departments, doctors = default_doctors,
      queue_history = [], statistics = []\<rparr>"

subsection \<open>\<^verbatim>\<open>get_current_queue\<close> (database.py 322-359)\<close>

text \<open>
  \<^verbatim>\<open>ORDER BY p.priority_level ASC, p.registration_time ASC\<close>: the rows in ascending
  order of the pair. The order SQLite gives to rows with equal pairs is not fixed by the
  query; here they keep the order of the table. The model returns the rows themselves,
  the query eight of their columns.
\<close>

definition queue_key :: "patient \<Rightarrow> int \<times> nat" where
  "queue_key p = (priority_level p, registration_time p)"

definition get_current_queue :: "string option \<Rightarrow> db \<Rightarrow> patient list" where
  "get_current_queue dept s =
     sort_key queue_key
       (filter (\<lambda>p. status p = waiting \<and> (truthy dept \<longrightarrow> department p = dept))
          (patients s))"

section \<open>Runs of the store\<close>

text \<open>
  The calls that change the store, as the menu loop of \<^verbatim>\<open>main.py\<close> and any other client
  issue them one after the other. A call that raises leaves the store as it was.
\<close>

datatype operation =
    Register string nat string "int option" "string option" bool bool "string option"
  | Start nat string "string option"
  | Complete string nat string
  | Cancel nat string "string option"
  | Update_statistics string nat

fun perform :: "operation \<Rightarrow> db \<Rightarrow> db" where
  "perform (Register today now name age_in condition emergency followup dept) s =
     (case register_patient today now name age_in condition emergency followup dept s of
        Inl e \<Rightarrow> s
      | Inr (token, s') \<Rightarrow> s')"
| "perform (Start now token doctor) s = snd (start_consultation now token doctor s)"
| "perform (Complete today now token) s =
     (case complete_consultation today now token s of
        Inl e \<Rightarrow> s
      | Inr (finished, s') \<Rightarrow> s')"
| "perform (Cancel now token reason) s = snd (cancel_patient now token reason s)"
| "perform (Update_statistics today now) s = update_daily_statistics today now s"

definition run :: "operation list \<Rightarrow> db \<Rightarrow> db" where
  "run ops s = fold perform ops s"

section \<open>Properties of the store\<close>

text \<open>
  The consistency the doctor records are meant to keep: a doctor with a current patient
  is not available.
\<close>

definition doctor_invariant :: "db \<Rightarrow> bool" where
  "doctor_invariant s \<longleftrightarrow>
     (\<forall>d\<in>set (doctors s). current_patient_token d \<noteq> None \<longrightarrow> \<not> is_available d)"

text \<open>
  How the statistics table may change: rows are only added at the end, each for a date
  the table did not have.
\<close>

definition grows :: "statistic list \<Rightarrow> statistic list \<Rightarrow> bool" where
  "grows xs ys \<longleftrightarrow>
     (\<exists>rest. ys = xs @ rest \<and> (\<forall>r\<in>set rest. date r \<notin> date ` set xs) \<and>
        distinct (map date rest))"

section \<open>Sample stores\<close>

text \<open>A row of table \<^verbatim>\<open>patients\<close> with the optional columns \<^verbatim>\<open>NULL\<close>.\<close>

definition sample_patient ::
  "string \<Rightarrow> int \<Rightarrow> nat \<Rightarrow> status \<Rightarrow> string option \<Rightarrow> patient" where
  "sample_patient token priority reg_time st doctor =
     \<lparr>token_number = token, full_name = ''A. Patient'', age = None, gender = None,
      phone_number = None, emergency_contact = None, medical_condition = None,
      priority_level = priority, department = None, doctor_assigned = doctor,
      registration_time = reg_time, consultation_start_time = None,
      consultation_end_time = None, status = st,
      estimated_wait_time = 20, patient_notes = None,
      is_emergency = (priority = 1), is_follow_up = False\<rparr>"

text \<open>One patient whose consultation is over.\<close>

definition store_completed :: db where
  "store_completed =
     init_database\<lparr>patients := [sample_patient ''HOSP-20240101-001'' 2 100 completed None]\<rparr>"

text \<open>
  One patient in consultation with Dr. Smith, who is bound to that patient, and one
  patient waiting.
\<close>

definition store_busy_doctor :: db where
  "store_busy_doctor =
     init_database
       \<lparr>patients :=
          [sample_patient ''HOSP-20240101-001'' 2 100 in_consultation (Some ''Dr. Smith''),
           sample_patient ''HOSP-20240101-002'' 2 160 waiting None],
        doctors :=
          [\<lparr>doctor_name = ''Dr. Smith'', department_id = Some 1,
            specialization = Some ''Emergency Medicine'', is_available = False,
            current_patient_token = Some ''HOSP-20240101-001''\<rparr>,
           \<lparr>doctor_name = ''Dr. Johnson'', department_id = Some 1,
            specialization = Some ''Trauma Specialist'', is_available = True,
            current_patient_token = None\<rparr>]\<rparr>"

text \<open>Two Regular patients registered within the same second on a new store.\<close>

definition store_same_second :: db where
  "store_same_second =
     run [Register ''20240101'' 100 ''Ann'' None None False False None,
          Register ''20240101'' 100 ''Bob'' None None False False None] init_database"

text \<open>
  A Regular patient, then an Emergency patient, then a Follow-up patient, all waiting,
  and a Regular patient whose consultation is over.
\<close>

definition store_queue :: db where
  "store_queue =
     init_database
       \<lparr>patients :=
          [sample_patient ''HOSP-20240101-001'' 2 100 waiting None,
           sample_patient ''HOSP-20240101-002'' 1 160 waiting None,
           sample_patient ''HOSP-20240101-003'' 3 170 waiting None,
           sample_patient ''HOSP-20240101-004'' 2 90 completed None]\<rparr>"

text \<open>
  The store with the busy doctor, on a day whose statistics row was written before any
  consultation was completed.
\<close>

definition store_with_statistics :: db where
  "store_with_statistics =
     store_busy_doctor
       \<lparr>statistics :=
          [\<lparr>date = ''2024-01-01'', total_patients = 0, emergency_cases = 0,
            regular_cases = 0, follow_up_cases = 0, doctors_available = 0\<rparr>]\<rparr>"

text \<open>Three Regular patients registered one after the other on a new store.\<close>

definition store_three_regular :: db where
  "store_three_regular =
     run [Register ''20240101'' 100 ''Ann'' None None False False None,
          Register ''20240101'' 110 ''Bob'' None None False False None,
          Register ''20240101'' 120 ''Cy'' None None False False None] init_database"

text \<open>
  The registration of a Regular walk-in patient without department on 2024-01-01, and the
  tokens \<^verbatim>\<open>HOSP-20240101-001\<close>, \<^verbatim>\<open>HOSP-20240101-002\<close>, ... up to number \<open>k\<close>, each
  written as \<^verbatim>\<open>generate_token\<close> formats it.
\<close>

definition walk_in :: operation where
  "walk_in = Register ''20240101'' 100 ''A. Patient'' None None False False None"

definition numbered :: "nat \<Rightarrow> string list" where
  "numbered k = map (\<lambda>n. ''HOSP-20240101-'' @ format_03d n) [1..<Suc k]"

section \<open>Auxiliary facts\<close>

lemma find_Some_mem: "find P xs = Some p \<Longrightarrow> p \<in> set xs \<and> P p"
  by (induction xs) (simp_all split: if_splits)

lemma find_map_keep:
  assumes "\<And>x. P (f x) = P x"
  shows "find P (map f xs) = map_option f (find P xs)"
  using assms by (induction xs) simp_all

lemma update_daily_statistics_other [simp]:
  "patients (update_daily_statistics today now s) = patients s"
  "doctors (update_daily_statistics today now s) = doctors s"
  "queue_history (update_daily_statistics today now s) = queue_history s"
  "departments (update_daily_statistics today now s) = departments s"
  by (simp_all add: update_daily_statistics_def Let_def)

section \<open>Starting a consultation\<close>

lemma start_hit_none:
  "\<forall>p\<in>set ps. token_number p = token \<longrightarrow> status p \<noteq> waiting \<Longrightarrow>
   filter (start_hit token) ps = []"
  by (auto simp: start_hit_def filter_empty_conv)

lemma start_hit_some:
  "\<exists>p\<in>set ps. token_number p = token \<and> status p = waiting \<Longrightarrow>
   0 < length (filter (start_hit token) ps)"
  by (auto simp: start_hit_def filter_empty_conv)

lemma start_consultation_fst:
  "fst (start_consultation now token doctor s) \<longleftrightarrow>
   0 < length (filter (start_hit token) (patients s))"
  by (simp add: start_consultation_def Let_def)

lemma start_consultation_patients:
  "0 < length (filter (start_hit token) (patients s)) \<Longrightarrow>
   patients (snd (start_consultation now token doctor s)) =
     map (\<lambda>p. if start_hit token p
               then p\<lparr>status := in_consultation, consultation_start_time := Some now,
                      doctor_assigned := doctor\<rparr>
               else p) (patients s)"
  by (simp add: start_consultation_def Let_def)

lemma start_consultation_doctors:
  "0 < length (filter (start_hit token) (patients s)) \<Longrightarrow>
   doctors (snd (start_consultation now token doctor s)) =
     (if truthy doctor then map (bind_doctor token (the doctor)) (doctors s) else doctors s)"
  by (simp add: start_consultation_def Let_def)

lemma started_row:
  "token_number (if start_hit token q
      then q\<lparr>status := in_consultation, consultation_start_time := Some now,
             doctor_assigned := doctor\<rparr>
      else q) = token \<Longrightarrow>
   status (if start_hit token q
      then q\<lparr>status := in_consultation, consultation_start_time := Some now,
             doctor_assigned := doctor\<rparr>
      else q) \<noteq> waiting"
  by (simp add: start_hit_def split: if_splits)

lemma bound_row:
  "doctor_name (bind_doctor token name d) = name \<Longrightarrow>
   current_patient_token (bind_doctor token name d) = Some token \<and>
   \<not> is_available (bind_doctor token name d)"
  by (cases "doctor_name d = name") (simp_all add: bind_doctor_def)

text \<open>
  C6. When no row of the token is \<^verbatim>\<open>waiting\<close> (the token is unknown, or its patient is
  in consultation, completed or cancelled), \<^verbatim>\<open>start_consultation\<close> returns \<^verbatim>\<open>False\<close>
  and the store it leaves is the store it was given: patients, history, doctors and
  every other table are untouched.
\<close>

theorem start_consultation_not_waiting:
  "\<forall>p\<in>set (patients s). token_number p = token \<longrightarrow> status p \<noteq> waiting \<Longrightarrow>
   start_consultation now token doctor s = (False, s)"
  by (simp add: start_consultation_def Let_def start_hit_none)

theorem start_consultation_not_waiting_witness:
  "map status (patients store_completed) = [completed] \<and>
   start_consultation 200 ''HOSP-20240101-001'' (Some ''Dr. Smith'') store_completed
     = (False, store_completed) \<and>
   patient_by_token ''HOSP-20240101-777'' store_completed = None \<and>
   start_consultation 200 ''HOSP-20240101-777'' None store_completed
     = (False, store_completed)"
proof -
  have known: "\<forall>p\<in>set (patients store_completed).
      token_number p = ''HOSP-20240101-001'' \<longrightarrow> status p \<noteq> waiting"
    by (simp add: store_completed_def sample_patient_def)
  have unknown: "\<forall>p\<in>set (patients store_completed).
      token_number p = ''HOSP-20240101-777'' \<longrightarrow> status p \<noteq> waiting"
    by (simp add: store_completed_def sample_patient_def)
  have rows: "map status (patients store_completed) = [completed]"
    by (simp add: store_completed_def sample_patient_def)
  have absent: "patient_by_token ''HOSP-20240101-777'' store_completed = None"
    by (simp add: patient_by_token_def store_completed_def sample_patient_def)
  from rows absent
    start_consultation_not_waiting [OF known, of 200 "Some ''Dr. Smith''"]
    start_consultation_not_waiting [OF unknown, of 200 None]
  show ?thesis by (intro conjI)
qed

text \<open>
  C10. \<^verbatim>\<open>start_consultation\<close> never looks at the doctor table before it succeeds: for
  a waiting patient it returns \<^verbatim>\<open>True\<close> whatever doctor is named and whatever the table
  of doctors holds (no such doctor, a doctor marked unavailable, a doctor bound to
  another patient), no row of the token is left waiting, and when a non-empty name is
  given every doctor row of that name ends up bound to the new token and unavailable,
  overwriting the binding it had.
\<close>

theorem start_consultation_any_doctor:
  assumes "\<exists>p\<in>set (patients s). token_number p = token \<and> status p = waiting"
  shows "fst (start_consultation now token doctor s) = True \<and>
    (\<forall>p\<in>set (patients (snd (start_consultation now token doctor s))).
        token_number p = token \<longrightarrow> status p \<noteq> waiting) \<and>
    (truthy doctor \<longrightarrow>
       length (doctors (snd (start_consultation now token doctor s))) = length (doctors s) \<and>
       (\<forall>d\<in>set (doctors (snd (start_consultation now token doctor s))).
          doctor_name d = the doctor \<longrightarrow>
          current_patient_token d = Some token \<and> \<not> is_available d))"
proof -
  have rows: "0 < length (filter (start_hit token) (patients s))"
    using assms by (rule start_hit_some)
  have a: "fst (start_consultation now token doctor s) = True"
    using rows by (simp add: start_consultation_fst)
  have b: "\<forall>p\<in>set (patients (snd (start_consultation now token doctor s))).
        token_number p = token \<longrightarrow> status p \<noteq> waiting"
    unfolding start_consultation_patients [OF rows] set_map ball_simps
    using started_row by fast
  have c: "truthy doctor \<longrightarrow>
       length (doctors (snd (start_consultation now token doctor s))) = length (doctors s) \<and>
       (\<forall>d\<in>set (doctors (snd (start_consultation now token doctor s))).
          doctor_name d = the doctor \<longrightarrow>
          current_patient_token d = Some token \<and> \<not> is_available d)"
    unfolding start_consultation_doctors [OF rows]
    using bound_row by (simp add: ball_simps)
  from a b c show ?thesis by (intro conjI)
qed

theorem start_consultation_any_doctor_witness:
  "map (\<lambda>d. (doctor_name d, is_available d, current_patient_token d)) (doctors store_busy_doctor)
     = [(''Dr. Smith'', False, Some ''HOSP-20240101-001''), (''Dr. Johnson'', True, None)] \<and>
   fst (start_consultation 200 ''HOSP-20240101-002'' (Some ''Dr. Smith'') store_busy_doctor) = True \<and>
   map (\<lambda>d. (doctor_name d, is_available d, current_patient_token d))
     (doctors (snd (start_consultation 200 ''HOSP-20240101-002'' (Some ''Dr. Smith'') store_busy_doctor)))
     = [(''Dr. Smith'', False, Some ''HOSP-20240101-002''), (''Dr. Johnson'', True, None)] \<and>
   fst (start_consultation 200 ''HOSP-20240101-002'' (Some ''Dr. Nobody'') store_busy_doctor) = True"
proof -
  have h: "\<exists>p\<in>set (patients store_busy_doctor).
      token_number p = ''HOSP-20240101-002'' \<and> status p = waiting"
    by (simp add: store_busy_doctor_def sample_patient_def)
  have before: "map (\<lambda>d. (doctor_name d, is_available d, current_patient_token d))
       (doctors store_busy_doctor)
     = [(''Dr. Smith'', False, Some ''HOSP-20240101-001''), (''Dr. Johnson'', True, None)]"
    by (simp add: store_busy_doctor_def)
  have rows: "0 < length (filter (start_hit ''HOSP-20240101-002'') (patients store_busy_doctor))"
    using h by (rule start_hit_some)
  have after: "map (\<lambda>d. (doctor_name d, is_available d, current_patient_token d))
     (doctors (snd (start_consultation 200 ''HOSP-20240101-002'' (Some ''Dr. Smith'') store_busy_doctor)))
     = [(''Dr. Smith'', False, Some ''HOSP-20240101-002''), (''Dr. Johnson'', True, None)]"
    unfolding start_consultation_doctors [OF rows]
    by (simp add: bind_doctor_def store_busy_doctor_def)
  from start_consultation_any_doctor [OF h, of 200 "Some ''Dr. Smith''"]
  have smith: "fst (start_consultation 200 ''HOSP-20240101-002'' (Some ''Dr. Smith'') store_busy_doctor) = True"
    by (rule conjunct1)
  from start_consultation_any_doctor [OF h, of 200 "Some ''Dr. Nobody''"]
  have nobody: "fst (start_consultation 200 ''HOSP-20240101-002'' (Some ''Dr. Nobody'') store_busy_doctor) = True"
    by (rule conjunct1)
  from before smith after nobody show ?thesis by (intro conjI)
qed

section \<open>Completing a consultation\<close>

lemma complete_hit_some:
  assumes "find (\<lambda>p. token_number p = token) ps = Some p" and "status p = in_consultation"
  shows "0 < length (filter (complete_hit token) ps)"
proof -
  from assms(1) have "p \<in> set ps" and "token_number p = token"
    using find_Some_mem [of "\<lambda>p. token_number p = token" ps p] by simp_all
  with assms(2) have "\<exists>x\<in>set ps. complete_hit token x"
    unfolding complete_hit_def by (intro bexI [of _ p]) simp_all
  then show ?thesis by (simp add: filter_empty_conv)
qed

lemma update_daily_statistics_locked_iff:
  "update_daily_statistics_locked today now s = Inr () \<longleftrightarrow>
   update_daily_statistics today now s = s"
proof (cases "filter (\<lambda>r. date r = today) (statistics s) = []")
  case True
  have "statistics (update_daily_statistics today now s) \<noteq> statistics s"
    using True by (simp add: update_daily_statistics_def Let_def)
  then have "update_daily_statistics today now s \<noteq> s" by metis
  with True show ?thesis by (simp add: update_daily_statistics_locked_def)
next
  case False
  then show ?thesis
    by (simp add: update_daily_statistics_locked_def update_daily_statistics_def)
qed

lemma complete_consultation_locked:
  "0 < length (filter (complete_hit token) (patients s)) \<Longrightarrow>
   filter (\<lambda>r. date r = today) (statistics s) = [] \<Longrightarrow>
   complete_consultation today now token s = Inl OperationalError"
  by (simp add: complete_consultation_def update_daily_statistics_locked_def Let_def)

lemma complete_consultation_none:
  "filter (complete_hit token) (patients s) = [] \<Longrightarrow>
   complete_consultation today now token s = Inr (False, s)"
  by (simp add: complete_consultation_def Let_def)

lemma complete_consultation_keeps_statistics:
  "0 < length (filter (complete_hit token) (patients s)) \<Longrightarrow>
   filter (\<lambda>r. date r = today) (statistics s) \<noteq> [] \<Longrightarrow>
   \<exists>s''. complete_consultation today now token s = Inr (True, s'') \<and>
     statistics s'' = statistics s"
  by (simp add: complete_consultation_def update_daily_statistics_locked_def Let_def)

lemma complete_consultation_statistics:
  assumes "complete_consultation today now token s = Inr (finished, s')"
  shows "statistics s' = statistics s"
proof (cases "0 < length (filter (complete_hit token) (patients s))")
  case False
  then have "complete_consultation today now token s = Inr (False, s)"
    by (intro complete_consultation_none) simp
  with assms show ?thesis by simp
next
  case True
  show ?thesis
  proof (cases "filter (\<lambda>r. date r = today) (statistics s) = []")
    case True
    with \<open>0 < length (filter (complete_hit token) (patients s))\<close>
    have "complete_consultation today now token s = Inl OperationalError"
      by (rule complete_consultation_locked)
    with assms show ?thesis by simp
  next
    case False
    from complete_consultation_keeps_statistics
      [OF \<open>0 < length (filter (complete_hit token) (patients s))\<close> False, of now]
    obtain s'' where "complete_consultation today now token s = Inr (True, s'')"
      and "statistics s'' = statistics s" by blast
    with assms show ?thesis by simp
  qed
qed

lemma complete_consultation_succeeds:
  "0 < length (filter (complete_hit token) (patients s)) \<Longrightarrow>
   filter (\<lambda>r. date r = today) (statistics s) \<noteq> [] \<Longrightarrow>
   map_sum id fst (complete_consultation today now token s) = Inr True"
  by (simp add: complete_consultation_def update_daily_statistics_locked_def Let_def)

lemma complete_consultation_with_row:
  assumes "0 < length (filter (complete_hit token) (patients s))"
    and "filter (\<lambda>r. date r = today) (statistics s) \<noteq> []"
    and "patient_by_token token s = Some p"
  shows "\<exists>s'. complete_consultation today now token s = Inr (True, s') \<and>
     patients s' = map (\<lambda>p. if complete_hit token p
               then p\<lparr>status := completed, consultation_end_time := Some now\<rparr>
               else p) (patients s) \<and>
     doctors s' =
       (if truthy (doctor_assigned p)
        then map (free_doctor (the (doctor_assigned p))) (doctors s) else doctors s)"
  using assms
  by (simp add: complete_consultation_def update_daily_statistics_locked_def Let_def)

lemma freed_row:
  "doctor_name (free_doctor name d) = name \<Longrightarrow>
   is_available (free_doctor name d) \<and> current_patient_token (free_doctor name d) = None"
  by (simp add: free_doctor_def split: if_splits)

lemma free_doctor_consistent:
  "(current_patient_token d \<noteq> None \<longrightarrow> \<not> is_available d) \<Longrightarrow>
   (current_patient_token (free_doctor name d) \<noteq> None \<longrightarrow>
    \<not> is_available (free_doctor name d))"
  by (simp add: free_doctor_def)

lemma completed_row_found:
  assumes "find (\<lambda>p. token_number p = token) ps = Some p" and "status p = in_consultation"
  shows "find (\<lambda>p. token_number p = token)
      (map (\<lambda>p. if complete_hit token p
                then p\<lparr>status := completed, consultation_end_time := Some now\<rparr> else p) ps)
     = Some (p\<lparr>status := completed, consultation_end_time := Some now\<rparr>)"
proof -
  from assms(1) have tok: "token_number p = token"
    using find_Some_mem [of "\<lambda>p. token_number p = token" ps p] by simp
  have "find (\<lambda>p. token_number p = token)
      (map (\<lambda>p. if complete_hit token p
                then p\<lparr>status := completed, consultation_end_time := Some now\<rparr> else p) ps)
     = map_option (\<lambda>p. if complete_hit token p
                then p\<lparr>status := completed, consultation_end_time := Some now\<rparr> else p)
         (find (\<lambda>p. token_number p = token) ps)"
    by (rule find_map_keep) simp
  with assms tok show ?thesis by (simp add: complete_hit_def)
qed

text \<open>
  On a day whose statistics row exists already the transition goes through as intended:
  the patient is completed, the end time is set, every doctor row of the assigned name
  is freed, and a store in which every doctor with a current patient is unavailable
  stays such a store.
\<close>

lemma complete_consultation_frees_doctor_with_row:
  assumes "patient_by_token token s = Some p" and "status p = in_consultation"
    and "doctor_assigned p = Some d" and "d \<noteq> []"
    and "\<exists>r\<in>set (statistics s). date r = today"
  shows "\<exists>s'. complete_consultation today now token s = Inr (True, s') \<and>
     patient_by_token token s'
       = Some (p\<lparr>status := completed, consultation_end_time := Some now\<rparr>) \<and>
     (\<forall>x\<in>set (doctors s'). doctor_name x = d \<longrightarrow>
        is_available x \<and> current_patient_token x = None) \<and>
     (doctor_invariant s \<longrightarrow> doctor_invariant s')"
proof -
  have rows: "0 < length (filter (complete_hit token) (patients s))"
    using assms(1,2) unfolding patient_by_token_def by (rule complete_hit_some)
  have row: "filter (\<lambda>r. date r = today) (statistics s) \<noteq> []"
    using assms(5) by (simp add: filter_empty_conv)
  from complete_consultation_with_row [OF rows row assms(1), of now]
  obtain s' where res: "complete_consultation today now token s = Inr (True, s')"
    and pats: "patients s' = map (\<lambda>p. if complete_hit token p
               then p\<lparr>status := completed, consultation_end_time := Some now\<rparr>
               else p) (patients s)"
    and docs: "doctors s' = map (free_doctor d) (doctors s)"
    using assms(3,4) by auto
  have b: "patient_by_token token s'
       = Some (p\<lparr>status := completed, consultation_end_time := Some now\<rparr>)"
    using completed_row_found [of token "patients s" p now] assms(1,2)
    by (simp add: patient_by_token_def pats)
  have c: "\<forall>x\<in>set (doctors s'). doctor_name x = d \<longrightarrow>
        is_available x \<and> current_patient_token x = None"
    unfolding docs set_map ball_simps using freed_row by fast
  have e: "doctor_invariant s \<longrightarrow> doctor_invariant s'"
    unfolding doctor_invariant_def docs set_map ball_simps
    using free_doctor_consistent by fast
  from res b c e show ?thesis by blast
qed

text \<open>
  What \<^verbatim>\<open>complete_consultation\<close> raises when the patient is in consultation and the
  statistics table has no row for the day.
\<close>

lemma complete_consultation_raises:
  assumes "patient_by_token token s = Some p" and "status p = in_consultation"
    and "\<forall>r\<in>set (statistics s). date r \<noteq> today"
  shows "complete_consultation today now token s = Inl OperationalError"
proof -
  have rows: "0 < length (filter (complete_hit token) (patients s))"
    using assms(1,2) unfolding patient_by_token_def by (rule complete_hit_some)
  have "filter (\<lambda>r. date r = today) (statistics s) = []"
    using assms(3) by (simp add: filter_empty_conv)
  with rows show ?thesis by (rule complete_consultation_locked)
qed

text \<open>
  C8. The code at a store of a day without a statistics row, the state of every day
  until a row is written: the patient is in consultation with Dr. Smith, who is bound to
  that patient. \<^verbatim>\<open>complete_consultation\<close> writes the transition, then calls
  \<^verbatim>\<open>update_daily_statistics\<close>, whose \<^verbatim>\<open>INSERT\<close> through a second connection is refused;
  the exception leaves the method, and the store is left as it was: the patient is still
  in consultation and the doctor still bound and unavailable.
\<close>

theorem complete_consultation_database_locked:
  "statistics store_busy_doctor = [] \<and>
   map (\<lambda>p. (token_number p, status p, doctor_assigned p)) (patients store_busy_doctor)
     = [(''HOSP-20240101-001'', in_consultation, Some ''Dr. Smith''),
        (''HOSP-20240101-002'', waiting, None)] \<and>
   complete_consultation ''2024-01-01'' 300 ''HOSP-20240101-001'' store_busy_doctor
     = Inl OperationalError \<and>
   perform (Complete ''2024-01-01'' 300 ''HOSP-20240101-001'') store_busy_doctor
     = store_busy_doctor"
proof -
  have empty: "statistics store_busy_doctor = []"
    by (simp add: store_busy_doctor_def init_database_def)
  have rows: "map (\<lambda>p. (token_number p, status p, doctor_assigned p)) (patients store_busy_doctor)
     = [(''HOSP-20240101-001'', in_consultation, Some ''Dr. Smith''),
        (''HOSP-20240101-002'', waiting, None)]"
    by (simp add: store_busy_doctor_def sample_patient_def)
  have found: "patient_by_token ''HOSP-20240101-001'' store_busy_doctor
     = Some (sample_patient ''HOSP-20240101-001'' 2 100 in_consultation (Some ''Dr. Smith''))"
    by (simp add: patient_by_token_def store_busy_doctor_def sample_patient_def)
  have st: "status (sample_patient ''HOSP-20240101-001'' 2 100 in_consultation (Some ''Dr. Smith''))
      = in_consultation"
    by (simp add: sample_patient_def)
  have none: "\<forall>r\<in>set (statistics store_busy_doctor). date r \<noteq> ''2024-01-01''"
    by (simp add: empty)
  have raised: "complete_consultation ''2024-01-01'' 300 ''HOSP-20240101-001'' store_busy_doctor
     = Inl OperationalError"
    using found st none by (rule complete_consultation_raises)
  then have kept: "perform (Complete ''2024-01-01'' 300 ''HOSP-20240101-001'') store_busy_doctor
     = store_busy_doctor"
    by simp
  from empty rows raised kept show ?thesis by (intro conjI)
qed

section \<open>Cancelling\<close>

lemma cancel_rows:
  assumes "find (\<lambda>p. token_number p = token) ps = Some p"
  shows "0 < length (filter (\<lambda>p. token_number p = token) ps)"
proof -
  from assms have "p \<in> set ps" and "token_number p = token"
    using find_Some_mem [of "\<lambda>p. token_number p = token" ps p] by simp_all
  then have "\<exists>x\<in>set ps. token_number x = token" by (intro bexI [of _ p])
  then show ?thesis by (simp add: filter_empty_conv)
qed

lemma cancelled_row_found:
  assumes "find (\<lambda>p. token_number p = token) ps = Some p"
  shows "find (\<lambda>p. token_number p = token)
      (map (\<lambda>p. if token_number p = token then p\<lparr>status := cancelled\<rparr> else p) ps)
     = Some (p\<lparr>status := cancelled\<rparr>)"
proof -
  from assms have tok: "token_number p = token"
    using find_Some_mem [of "\<lambda>p. token_number p = token" ps p] by simp
  have "find (\<lambda>p. token_number p = token)
      (map (\<lambda>p. if token_number p = token then p\<lparr>status := cancelled\<rparr> else p) ps)
     = map_option (\<lambda>p. if token_number p = token then p\<lparr>status := cancelled\<rparr> else p)
         (find (\<lambda>p. token_number p = token) ps)"
    by (rule find_map_keep) simp
  with assms tok show ?thesis by simp
qed

text \<open>
  C2, as the claim states it, fails: \<^verbatim>\<open>cancel_patient\<close> on a completed patient returns
  \<^verbatim>\<open>True\<close> and turns the status into \<^verbatim>\<open>cancelled\<close>, and so it does on a patient in
  consultation.
\<close>

theorem cancel_patient_completed_counterexample:
  "map status (patients store_completed) = [completed] \<and>
   fst (cancel_patient 200 ''HOSP-20240101-001'' None store_completed) = True \<and>
   map status (patients (snd (cancel_patient 200 ''HOSP-20240101-001'' None store_completed)))
     = [cancelled] \<and>
   map status (patients store_busy_doctor) = [in_consultation, waiting] \<and>
   fst (cancel_patient 200 ''HOSP-20240101-001'' None store_busy_doctor) = True \<and>
   map status (patients (snd (cancel_patient 200 ''HOSP-20240101-001'' None store_busy_doctor)))
     = [cancelled, waiting]"
  by (simp add: cancel_patient_def patient_by_token_def Let_def
      store_completed_def store_busy_doctor_def sample_patient_def)

text \<open>
  C2, amended. \<^verbatim>\<open>cancel_patient\<close> fails exactly on an unknown token, and then the
  store is unchanged. On a known token it succeeds whatever the patient's status is
  (waiting, in consultation, completed or cancelled): the status becomes
  \<^verbatim>\<open>cancelled\<close> and one \<^verbatim>\<open>CANCELLED\<close> history entry is appended that records the
  previous status, the reason, and the queue position only when the patient was waiting.
\<close>

theorem cancel_patient_any_status:
  "(patient_by_token token s = None \<longrightarrow> cancel_patient now token reason s = (False, s)) \<and>
   (\<forall>p. patient_by_token token s = Some p \<longrightarrow>
      fst (cancel_patient now token reason s) = True \<and>
      patient_by_token token (snd (cancel_patient now token reason s))
        = Some (p\<lparr>status := cancelled\<rparr>) \<and>
      queue_history (snd (cancel_patient now token reason s)) = queue_history s @
        [\<lparr>h_token_number = token, h_action = CANCELLED, action_time = now,
          previous_status = Some (status p), new_status = Some cancelled,
          queue_position_before =
            (if status p = waiting then Some (get_queue_position token s) else None),
          queue_position_after = None, performed_by = ''system'', h_notes = reason\<rparr>])"
proof (intro conjI allI impI)
  assume "patient_by_token token s = None"
  then show "cancel_patient now token reason s = (False, s)"
    by (simp add: cancel_patient_def)
next
  fix p assume p: "patient_by_token token s = Some p"
  then have rows: "0 < length (filter (\<lambda>p. token_number p = token) (patients s))"
    unfolding patient_by_token_def by (rule cancel_rows)
  have found: "find (\<lambda>p. token_number p = token)
      (map (\<lambda>p. if token_number p = token then p\<lparr>status := cancelled\<rparr> else p) (patients s))
     = Some (p\<lparr>status := cancelled\<rparr>)"
    using p unfolding patient_by_token_def by (rule cancelled_row_found)
  show "fst (cancel_patient now token reason s) = True"
    using p rows by (simp add: cancel_patient_def Let_def)
  show "patient_by_token token (snd (cancel_patient now token reason s))
      = Some (p\<lparr>status := cancelled\<rparr>)"
    using p rows found by (simp add: cancel_patient_def Let_def patient_by_token_def)
  show "queue_history (snd (cancel_patient now token reason s)) = queue_history s @
        [\<lparr>h_token_number = token, h_action = CANCELLED, action_time = now,
          previous_status = Some (status p), new_status = Some cancelled,
          queue_position_before =
            (if status p = waiting then Some (get_queue_position token s) else None),
          queue_position_after = None, performed_by = ''system'', h_notes = reason\<rparr>]"
    using p rows by (simp add: cancel_patient_def Let_def)
qed

theorem cancel_patient_any_status_witness:
  "patient_by_token ''HOSP-20240101-777'' store_completed = None \<and>
   cancel_patient 200 ''HOSP-20240101-777'' (Some ''left'') store_completed
     = (False, store_completed) \<and>
   patient_by_token ''HOSP-20240101-001'' store_completed
     = Some (sample_patient ''HOSP-20240101-001'' 2 100 completed None) \<and>
   fst (cancel_patient 200 ''HOSP-20240101-001'' (Some ''left'') store_completed) = True \<and>
   patient_by_token ''HOSP-20240101-001''
       (snd (cancel_patient 200 ''HOSP-20240101-001'' (Some ''left'') store_completed))
     = Some ((sample_patient ''HOSP-20240101-001'' 2 100 completed None)\<lparr>status := cancelled\<rparr>)"
proof -
  have absent: "patient_by_token ''HOSP-20240101-777'' store_completed = None"
    by (simp add: patient_by_token_def store_completed_def sample_patient_def)
  have found: "patient_by_token ''HOSP-20240101-001'' store_completed
     = Some (sample_patient ''HOSP-20240101-001'' 2 100 completed None)"
    by (simp add: patient_by_token_def store_completed_def sample_patient_def)
  from cancel_patient_any_status [of "''HOSP-20240101-777''" store_completed 200 "Some ''left''"]
    absent
  have a: "cancel_patient 200 ''HOSP-20240101-777'' (Some ''left'') store_completed
     = (False, store_completed)"
    by (elim conjE impE)
  from cancel_patient_any_status [of "''HOSP-20240101-001''" store_completed 200 "Some ''left''"]
  have "\<forall>p. patient_by_token ''HOSP-20240101-001'' store_completed = Some p \<longrightarrow>
      fst (cancel_patient 200 ''HOSP-20240101-001'' (Some ''left'') store_completed) = True \<and>
      patient_by_token ''HOSP-20240101-001''
          (snd (cancel_patient 200 ''HOSP-20240101-001'' (Some ''left'') store_completed))
        = Some (p\<lparr>status := cancelled\<rparr>)"
    by simp
  with found
  have b: "fst (cancel_patient 200 ''HOSP-20240101-001'' (Some ''left'') store_completed) = True \<and>
      patient_by_token ''HOSP-20240101-001''
          (snd (cancel_patient 200 ''HOSP-20240101-001'' (Some ''left'') store_completed))
        = Some ((sample_patient ''HOSP-20240101-001'' 2 100 completed None)\<lparr>status := cancelled\<rparr>)"
    by (elim allE impE)
  from absent a found b show ?thesis by (intro conjI) (elim conjE, assumption)+
qed

section \<open>Queue positions\<close>

lemma filter_length_mono:
  "(\<And>x. x \<in> set xs \<Longrightarrow> P x \<Longrightarrow> Q x) \<Longrightarrow> length (filter P xs) \<le> length (filter Q xs)"
  by (induction xs) simp_all

lemma filter_length_strict:
  assumes "\<And>x. x \<in> set xs \<Longrightarrow> P x \<Longrightarrow> Q x" and "y \<in> set xs" and "Q y" and "\<not> P y"
  shows "length (filter P xs) < length (filter Q xs)"
  using assms
proof (induction xs)
  case Nil then show ?case by simp
next
  case (Cons x xs)
  have le: "length (filter P xs) \<le> length (filter Q xs)"
    using Cons.prems(1) by (intro filter_length_mono) simp_all
  show ?case
  proof (cases "y = x")
    case True
    with Cons.prems(3,4) le show ?thesis by simp
  next
    case False
    with Cons.prems(2) have "y \<in> set xs" by simp
    with Cons.IH Cons.prems have "length (filter P xs) < length (filter Q xs)" by simp
    moreover have "P x \<Longrightarrow> Q x" using Cons.prems(1) [of x] by simp
    ultimately show ?thesis by (cases "P x"; cases "Q x") simp_all
  qed
qed

lemma ahead_of_key:
  "ahead_of (priority_level p) (registration_time p) q \<longleftrightarrow>
   status q = waiting \<and> queue_key q < queue_key p"
  unfolding ahead_of_def queue_key_def less_prod_simp by linarith

lemma sorted_filter_takeWhile:
  "sorted (map f xs) \<Longrightarrow> filter (\<lambda>x. f x < k) xs = takeWhile (\<lambda>x. f x < k) xs"
proof (induction xs)
  case Nil then show ?case by simp
next
  case (Cons x xs)
  show ?case
  proof (cases "f x < k")
    case True with Cons show ?thesis by simp
  next
    case False
    with Cons.prems have "\<forall>y\<in>set xs. \<not> f y < k" by fastforce
    then have "filter (\<lambda>x. f x < k) xs = []" by (simp add: filter_empty_conv)
    with False show ?thesis by simp
  qed
qed

lemma count_ahead_queue:
  "length (filter (ahead_of (priority_level p) (registration_time p)) (patients s))
   = length (takeWhile (\<lambda>q. queue_key q < queue_key p) (get_current_queue None s))"
proof -
  have "filter (ahead_of (priority_level p) (registration_time p)) (patients s)
      = filter (\<lambda>q. status q = waiting \<and> queue_key q < queue_key p) (patients s)"
    by (rule filter_cong [OF refl]) (simp add: ahead_of_key)
  also have "\<dots> = filter (\<lambda>q. queue_key q < queue_key p)
      (filter (\<lambda>q. status q = waiting) (patients s))"
    by (simp add: conj_commute)
  finally have "length (filter (ahead_of (priority_level p) (registration_time p)) (patients s))
      = length (filter (\<lambda>q. queue_key q < queue_key p)
          (filter (\<lambda>q. status q = waiting) (patients s)))"
    by simp
  also have "\<dots> = length (filter (\<lambda>q. queue_key q < queue_key p)
      (sort_key queue_key (filter (\<lambda>q. status q = waiting) (patients s))))"
    by (simp add: filter_sort)
  also have "\<dots> = length (takeWhile (\<lambda>q. queue_key q < queue_key p)
      (sort_key queue_key (filter (\<lambda>q. status q = waiting) (patients s))))"
    by (simp add: sorted_filter_takeWhile)
  finally show ?thesis by (simp add: get_current_queue_def)
qed

lemma sorted_first_not_less:
  assumes "sorted (map f xs)" and "y \<in> set xs" and "\<not> f y < k"
  shows "length (takeWhile (\<lambda>x. f x < k) xs) < length xs \<and>
         f (xs ! length (takeWhile (\<lambda>x. f x < k) xs)) \<le> f y \<and>
         \<not> f (xs ! length (takeWhile (\<lambda>x. f x < k) xs)) < k"
  using assms
proof (induction xs)
  case Nil then show ?case by simp
next
  case (Cons x xs)
  show ?case
  proof (cases "f x < k")
    case True
    with Cons.prems have "y \<in> set xs" by auto
    with Cons True show ?thesis by simp
  next
    case False
    with Cons.prems show ?thesis by auto
  qed
qed

lemma waiting_in_queue:
  "p \<in> set (patients s) \<Longrightarrow> status p = waiting \<Longrightarrow> p \<in> set (get_current_queue None s)"
  by (simp add: get_current_queue_def)

text \<open>
  C4, as the claim states it, fails: for a patient whose consultation is over
  \<^verbatim>\<open>get_queue_position\<close> does not return \<^verbatim>\<open>-1\<close> but one more than the number of waiting
  patients that precede the patient's own (class, registration time).
\<close>

theorem get_queue_position_completed_counterexample:
  "patient_by_token ''HOSP-20240101-004'' store_queue
     = Some (sample_patient ''HOSP-20240101-004'' 2 90 completed None) \<and>
   get_queue_position ''HOSP-20240101-004'' store_queue = 2 \<and>
   patient_by_token ''HOSP-20240101-001'' store_completed
     = Some (sample_patient ''HOSP-20240101-001'' 2 100 completed None) \<and>
   get_queue_position ''HOSP-20240101-001'' store_completed = 1"
  by (simp add: get_queue_position_def patient_by_token_def store_queue_def
      store_completed_def sample_patient_def ahead_of_def)

text \<open>
  C4, amended. \<^verbatim>\<open>get_queue_position\<close> returns \<^verbatim>\<open>-1\<close> exactly for a token that no
  patient has. For every patient there is, whatever the status, it returns one more than
  the number of entries of the waiting queue (ordered by priority class ascending, then
  registration time ascending) that come strictly before the patient's own (class,
  registration time). For a waiting patient this is a 1-based rank in that queue: it
  is at most the length of the queue, and the queue entry at that rank has the
  patient's class and registration time.
\<close>

theorem get_queue_position_rank:
  "(patient_by_token token s = None \<longrightarrow> get_queue_position token s = - 1) \<and>
   (\<forall>p. patient_by_token token s = Some p \<longrightarrow>
      get_queue_position token s
        = 1 + int (length (takeWhile (\<lambda>q. queue_key q < queue_key p)
                             (get_current_queue None s))) \<and>
      (status p = waiting \<longrightarrow>
         nat (get_queue_position token s) \<le> length (get_current_queue None s) \<and>
         queue_key (get_current_queue None s ! (nat (get_queue_position token s) - 1))
           = queue_key p))"
proof (intro conjI allI impI)
  assume "patient_by_token token s = None"
  then show "get_queue_position token s = - 1" by (simp add: get_queue_position_def)
next
  fix p assume p: "patient_by_token token s = Some p"
  then show pos: "get_queue_position token s
       = 1 + int (length (takeWhile (\<lambda>q. queue_key q < queue_key p)
                            (get_current_queue None s)))"
    by (simp add: get_queue_position_def count_ahead_queue)
  assume w: "status p = waiting"
  have "p \<in> set (patients s)"
    using p find_Some_mem [of "\<lambda>p. token_number p = token" "patients s" p]
    by (simp add: patient_by_token_def)
  then have pin: "p \<in> set (get_current_queue None s)" using w by (rule waiting_in_queue)
  have srt: "sorted (map queue_key (get_current_queue None s))"
    by (simp add: get_current_queue_def)
  have nl: "\<not> queue_key p < queue_key p" by simp
  note first = sorted_first_not_less [OF srt pin nl]
  have n: "nat (get_queue_position token s)
      = Suc (length (takeWhile (\<lambda>q. queue_key q < queue_key p) (get_current_queue None s)))"
    unfolding pos by linarith
  from first show "nat (get_queue_position token s) \<le> length (get_current_queue None s)"
    unfolding n by linarith
  from first have "queue_key (get_current_queue None s !
        length (takeWhile (\<lambda>q. queue_key q < queue_key p) (get_current_queue None s)))
      = queue_key p"
    by (metis order.order_iff_strict)
  then show "queue_key (get_current_queue None s ! (nat (get_queue_position token s) - 1))
          = queue_key p"
    unfolding n by simp
qed

lemma store_queue_order:
  "map token_number (get_current_queue None store_queue)
     = [''HOSP-20240101-002'', ''HOSP-20240101-001'', ''HOSP-20240101-003''] \<and>
   length (takeWhile
       (\<lambda>q. queue_key q < queue_key (sample_patient ''HOSP-20240101-001'' 2 100 waiting None))
       (get_current_queue None store_queue)) = 1"
  by code_simp

theorem get_queue_position_rank_witness:
  "patient_by_token ''HOSP-20240101-777'' store_queue = None \<and>
   get_queue_position ''HOSP-20240101-777'' store_queue = - 1 \<and>
   patient_by_token ''HOSP-20240101-001'' store_queue
     = Some (sample_patient ''HOSP-20240101-001'' 2 100 waiting None) \<and>
   map token_number (get_current_queue None store_queue)
     = [''HOSP-20240101-002'', ''HOSP-20240101-001'', ''HOSP-20240101-003''] \<and>
   get_queue_position ''HOSP-20240101-001'' store_queue = 2"
proof -
  have absent: "patient_by_token ''HOSP-20240101-777'' store_queue = None"
    by (simp add: patient_by_token_def store_queue_def sample_patient_def)
  have found: "patient_by_token ''HOSP-20240101-001'' store_queue
     = Some (sample_patient ''HOSP-20240101-001'' 2 100 waiting None)"
    by (simp add: patient_by_token_def store_queue_def sample_patient_def)
  from get_queue_position_rank [of "''HOSP-20240101-777''" store_queue] absent
  have a: "get_queue_position ''HOSP-20240101-777'' store_queue = - 1"
    by blast
  from get_queue_position_rank [of "''HOSP-20240101-001''" store_queue] found
  have "get_queue_position ''HOSP-20240101-001'' store_queue
      = 1 + int (length (takeWhile
          (\<lambda>q. queue_key q < queue_key (sample_patient ''HOSP-20240101-001'' 2 100 waiting None))
          (get_current_queue None store_queue)))"
    by blast
  then have b: "get_queue_position ''HOSP-20240101-001'' store_queue = 2"
    using store_queue_order by simp
  from absent a found store_queue_order b show ?thesis by (intro conjI) (elim conjE, assumption)+
qed

lemma store_same_second_rows:
  "map (\<lambda>p. (token_number p, priority_level p, registration_time p, status p))
     (patients store_same_second)
   = [(''HOSP-20240101-001'', 2, 100, waiting), (''HOSP-20240101-002'', 2, 100, waiting)]"
  by code_simp

text \<open>
  C5, as the claim states it, fails: two Regular patients registered within the same
  second are both waiting, have different tokens, and both get position 1.
\<close>

theorem get_queue_position_tie_counterexample:
  "map token_number (filter (\<lambda>p. status p = waiting) (patients store_same_second))
     = [''HOSP-20240101-001'', ''HOSP-20240101-002''] \<and>
   get_queue_position ''HOSP-20240101-001'' store_same_second = 1 \<and>
   get_queue_position ''HOSP-20240101-002'' store_same_second = 1"
  by code_simp

text \<open>
  C5, amended. Among the patients of the store, the position strictly increases with
  (priority class, registration time): a waiting patient whose class number is lower,
  or whose class is the same and whose registration time is earlier, has a strictly
  smaller position than the other one, so waiting patients that differ in class or
  registration time have different positions. Patients with the same class and the
  same registration time (the resolution is one second) have the same position: the
  position is not injective on the waiting patients.
\<close>

theorem get_queue_position_strict:
  assumes "patient_by_token t1 s = Some p" and "patient_by_token t2 s = Some q"
  shows "(status p = waiting \<and> (priority_level p < priority_level q \<or>
          (priority_level p = priority_level q \<and> registration_time p < registration_time q))
         \<longrightarrow> get_queue_position t1 s < get_queue_position t2 s) \<and>
        (priority_level p = priority_level q \<and> registration_time p = registration_time q
         \<longrightarrow> get_queue_position t1 s = get_queue_position t2 s)"
proof (intro conjI impI)
  assume a: "status p = waiting \<and> (priority_level p < priority_level q \<or>
          (priority_level p = priority_level q \<and> registration_time p < registration_time q))"
  have pin: "p \<in> set (patients s)"
    using assms(1) find_Some_mem [of "\<lambda>p. token_number p = t1" "patients s" p]
    by (simp add: patient_by_token_def)
  have "length (filter (ahead_of (priority_level p) (registration_time p)) (patients s))
      < length (filter (ahead_of (priority_level q) (registration_time q)) (patients s))"
  proof (rule filter_length_strict [OF _ pin])
    show "ahead_of (priority_level q) (registration_time q) p"
      using a by (simp add: ahead_of_def)
    show "\<not> ahead_of (priority_level p) (registration_time p) p"
      by (simp add: ahead_of_def)
    fix x assume "ahead_of (priority_level p) (registration_time p) x"
    then show "ahead_of (priority_level q) (registration_time q) x"
      using a unfolding ahead_of_def by linarith
  qed
  then show "get_queue_position t1 s < get_queue_position t2 s"
    using assms by (simp add: get_queue_position_def)
next
  assume "priority_level p = priority_level q \<and> registration_time p = registration_time q"
  then show "get_queue_position t1 s = get_queue_position t2 s"
    using assms by (simp add: get_queue_position_def)
qed

lemma store_same_second_keys:
  "map_option (\<lambda>p. (priority_level p, registration_time p))
     (patient_by_token ''HOSP-20240101-001'' store_same_second) = Some (2, 100) \<and>
   map_option (\<lambda>p. (priority_level p, registration_time p))
     (patient_by_token ''HOSP-20240101-002'' store_same_second) = Some (2, 100)"
  by code_simp

theorem get_queue_position_strict_witness:
  "patient_by_token ''HOSP-20240101-002'' store_queue
     = Some (sample_patient ''HOSP-20240101-002'' 1 160 waiting None) \<and>
   patient_by_token ''HOSP-20240101-001'' store_queue
     = Some (sample_patient ''HOSP-20240101-001'' 2 100 waiting None) \<and>
   get_queue_position ''HOSP-20240101-002'' store_queue
     < get_queue_position ''HOSP-20240101-001'' store_queue \<and>
   get_queue_position ''HOSP-20240101-002'' store_queue = 1 \<and>
   get_queue_position ''HOSP-20240101-001'' store_queue = 2 \<and>
   get_queue_position ''HOSP-20240101-001'' store_same_second
     = get_queue_position ''HOSP-20240101-002'' store_same_second"
proof -
  have p: "patient_by_token ''HOSP-20240101-002'' store_queue
     = Some (sample_patient ''HOSP-20240101-002'' 1 160 waiting None)"
    by (simp add: patient_by_token_def store_queue_def sample_patient_def)
  have q: "patient_by_token ''HOSP-20240101-001'' store_queue
     = Some (sample_patient ''HOSP-20240101-001'' 2 100 waiting None)"
    by (simp add: patient_by_token_def store_queue_def sample_patient_def)
  have before: "status (sample_patient ''HOSP-20240101-002'' 1 160 waiting None) = waiting \<and>
     (priority_level (sample_patient ''HOSP-20240101-002'' 1 160 waiting None)
        < priority_level (sample_patient ''HOSP-20240101-001'' 2 100 waiting None) \<or>
      priority_level (sample_patient ''HOSP-20240101-002'' 1 160 waiting None)
        = priority_level (sample_patient ''HOSP-20240101-001'' 2 100 waiting None) \<and>
      registration_time (sample_patient ''HOSP-20240101-002'' 1 160 waiting None)
        < registration_time (sample_patient ''HOSP-20240101-001'' 2 100 waiting None))"
    by (simp add: sample_patient_def)
  from get_queue_position_strict [OF p q] before
  have less: "get_queue_position ''HOSP-20240101-002'' store_queue
     < get_queue_position ''HOSP-20240101-001'' store_queue"
    by blast
  have one: "get_queue_position ''HOSP-20240101-002'' store_queue = 1"
    by (simp add: get_queue_position_def patient_by_token_def store_queue_def
        sample_patient_def ahead_of_def)
  have two: "get_queue_position ''HOSP-20240101-001'' store_queue = 2"
    by (simp add: get_queue_position_def patient_by_token_def store_queue_def
        sample_patient_def ahead_of_def)
  obtain a where a: "patient_by_token ''HOSP-20240101-001'' store_same_second = Some a"
      and ka: "priority_level a = 2" "registration_time a = 100"
    using store_same_second_keys
    by (cases "patient_by_token ''HOSP-20240101-001'' store_same_second") simp_all
  obtain b where b: "patient_by_token ''HOSP-20240101-002'' store_same_second = Some b"
      and kb: "priority_level b = 2" "registration_time b = 100"
    using store_same_second_keys
    by (cases "patient_by_token ''HOSP-20240101-002'' store_same_second") simp_all
  from get_queue_position_strict [OF a b] ka kb
  have tie: "get_queue_position ''HOSP-20240101-001'' store_same_second
     = get_queue_position ''HOSP-20240101-002'' store_same_second"
    by simp
  from p q less one two tie show ?thesis by (intro conjI)
qed

section \<open>Daily statistics\<close>

lemma grows_refl: "grows xs xs"
  by (simp add: grows_def)

lemma grows_trans:
  assumes "grows xs ys" and "grows ys zs"
  shows "grows xs zs"
proof -
  from assms(1) obtain r1 where r1: "ys = xs @ r1" "\<forall>r\<in>set r1. date r \<notin> date ` set xs"
      "distinct (map date r1)"
    unfolding grows_def by blast
  from assms(2) obtain r2 where r2: "zs = ys @ r2" "\<forall>r\<in>set r2. date r \<notin> date ` set ys"
      "distinct (map date r2)"
    unfolding grows_def by blast
  have "zs = xs @ (r1 @ r2)" using r1(1) r2(1) by simp
  moreover have "\<forall>r\<in>set (r1 @ r2). date r \<notin> date ` set xs"
    using r1(1,2) r2(2) by auto
  moreover have "distinct (map date (r1 @ r2))"
  proof -
    have "\<And>a b. a \<in> set r1 \<Longrightarrow> b \<in> set r2 \<Longrightarrow> date a \<noteq> date b"
      using r1(1) r2(2) by (metis UnCI image_eqI set_append)
    with r1(3) r2(3) show ?thesis by auto
  qed
  ultimately show ?thesis unfolding grows_def by blast
qed

lemma grows_update:
  "grows (statistics s) (statistics (update_daily_statistics today now s))"
proof (cases "filter (\<lambda>r. date r = today) (statistics s) = []")
  case True
  then have "\<forall>r\<in>set (statistics s). date r \<noteq> today" by (simp add: filter_empty_conv)
  then show ?thesis
    using True unfolding grows_def update_daily_statistics_def Let_def
    by (simp add: image_iff) metis
next
  case False
  then show ?thesis by (simp add: update_daily_statistics_def grows_refl)
qed

lemma statistics_start [simp]:
  "statistics (snd (start_consultation now token doctor s)) = statistics s"
  by (simp add: start_consultation_def Let_def)

lemma statistics_cancel [simp]:
  "statistics (snd (cancel_patient now token reason s)) = statistics s"
  by (simp add: cancel_patient_def Let_def split: option.splits)

lemma statistics_add_patient:
  "add_patient today now pd s = Inr (token, s') \<Longrightarrow> statistics s' = statistics s"
  by (auto simp: add_patient_def Let_def split: sum.splits if_splits)

lemma grows_perform: "grows (statistics s) (statistics (perform op s))"
proof (cases op)
  case (Register today now name a c e f d)
  then show ?thesis
    by (auto simp: register_patient_def Let_def grows_refl dest: statistics_add_patient
        split: sum.splits)
next
  case (Start now token doctor) then show ?thesis by (simp add: grows_refl)
next
  case (Complete today now token)
  then show ?thesis
    by (auto simp: grows_refl dest: complete_consultation_statistics split: sum.splits)
next
  case (Cancel now token reason) then show ?thesis by (simp add: grows_refl)
next
  case (Update_statistics today now) then show ?thesis by (simp add: grows_update)
qed

lemma grows_run: "grows (statistics s) (statistics (run ops s))"
proof (induction ops arbitrary: s)
  case Nil then show ?case by (simp add: run_def grows_refl)
next
  case (Cons op ops)
  have "run (op # ops) s = run ops (perform op s)" by (simp add: run_def)
  with grows_trans [OF grows_perform [of s op] Cons.IH [of "perform op s"]]
  show ?case by simp
qed

text \<open>
  C9. Through any sequence of registrations, consultation starts, completions,
  cancellations and statistics updates, the statistics table only grows at its end:
  no existing row is modified or replaced; once a row exists for a date, the rows of
  that date stay exactly the ones there were (no completion and no statistics update
  recomputes or adds to them); and a table with at most one row per date keeps at most
  one row per date.
\<close>

theorem statistics_written_once:
  "(\<exists>rest. statistics (run ops s) = statistics s @ rest) \<and>
   ((\<exists>r\<in>set (statistics s). date r = d) \<longrightarrow>
      filter (\<lambda>r. date r = d) (statistics (run ops s))
        = filter (\<lambda>r. date r = d) (statistics s)) \<and>
   (distinct (map date (statistics s)) \<longrightarrow> distinct (map date (statistics (run ops s))))"
proof -
  from grows_run [of s ops] obtain rest where
    rest: "statistics (run ops s) = statistics s @ rest"
      "\<forall>r\<in>set rest. date r \<notin> date ` set (statistics s)" "distinct (map date rest)"
    unfolding grows_def by blast
  have a: "\<exists>rest. statistics (run ops s) = statistics s @ rest" using rest(1) by blast
  have b: "(\<exists>r\<in>set (statistics s). date r = d) \<longrightarrow>
      filter (\<lambda>r. date r = d) (statistics (run ops s))
        = filter (\<lambda>r. date r = d) (statistics s)"
  proof
    assume "\<exists>r\<in>set (statistics s). date r = d"
    then have "d \<in> date ` set (statistics s)" by auto
    with rest(2) have "filter (\<lambda>r. date r = d) rest = []"
      by (auto simp: filter_empty_conv)
    with rest(1) show "filter (\<lambda>r. date r = d) (statistics (run ops s))
        = filter (\<lambda>r. date r = d) (statistics s)" by simp
  qed
  have c: "distinct (map date (statistics s)) \<longrightarrow> distinct (map date (statistics (run ops s)))"
  proof
    assume "distinct (map date (statistics s))"
    moreover have "\<And>a b. a \<in> set (statistics s) \<Longrightarrow> b \<in> set rest \<Longrightarrow> date a \<noteq> date b"
      using rest(2) by (metis image_eqI)
    ultimately show "distinct (map date (statistics (run ops s)))"
      using rest(1,3) by auto
  qed
  from a b c show ?thesis by (intro conjI)
qed

theorem statistics_written_once_witness:
  "map (\<lambda>r. (date r, total_patients r)) (statistics store_with_statistics)
     = [(''2024-01-01'', 0)] \<and>
   map_sum id fst
     (complete_consultation ''2024-01-01'' 300 ''HOSP-20240101-001'' store_with_statistics)
     = Inr True \<and>
   filter (\<lambda>r. date r = ''2024-01-01'')
       (statistics (run [Complete ''2024-01-01'' 300 ''HOSP-20240101-001'',
                         Update_statistics ''2024-01-01'' 500] store_with_statistics))
     = statistics store_with_statistics \<and>
   distinct (map date
       (statistics (run [Complete ''2024-01-01'' 300 ''HOSP-20240101-001'',
                         Update_statistics ''2024-01-01'' 500] store_with_statistics)))"
proof -
  have rows: "map (\<lambda>r. (date r, total_patients r)) (statistics store_with_statistics)
     = [(''2024-01-01'', 0)]"
    by (simp add: store_with_statistics_def)
  have found: "find (\<lambda>p. token_number p = ''HOSP-20240101-001'') (patients store_with_statistics)
     = Some (sample_patient ''HOSP-20240101-001'' 2 100 in_consultation (Some ''Dr. Smith''))"
    by (simp add: store_with_statistics_def store_busy_doctor_def sample_patient_def)
  have st: "status (sample_patient ''HOSP-20240101-001'' 2 100 in_consultation (Some ''Dr. Smith''))
      = in_consultation"
    by (simp add: sample_patient_def)
  have finished: "map_sum id fst
     (complete_consultation ''2024-01-01'' 300 ''HOSP-20240101-001'' store_with_statistics)
     = Inr True"
    using complete_hit_some [OF found st]
    by (intro complete_consultation_succeeds) (simp_all add: store_with_statistics_def)
  have has: "\<exists>r\<in>set (statistics store_with_statistics). date r = ''2024-01-01''"
    by (simp add: store_with_statistics_def)
  have one: "distinct (map date (statistics store_with_statistics))"
    by (simp add: store_with_statistics_def)
  have same: "filter (\<lambda>r. date r = ''2024-01-01'') (statistics store_with_statistics)
      = statistics store_with_statistics"
    by (simp add: store_with_statistics_def)
  note concl = statistics_written_once
    [of "[Complete ''2024-01-01'' 300 ''HOSP-20240101-001'',
          Update_statistics ''2024-01-01'' 500]" store_with_statistics "''2024-01-01''"]
  from concl has have "filter (\<lambda>r. date r = ''2024-01-01'')
       (statistics (run [Complete ''2024-01-01'' 300 ''HOSP-20240101-001'',
                         Update_statistics ''2024-01-01'' 500] store_with_statistics))
     = filter (\<lambda>r. date r = ''2024-01-01'') (statistics store_with_statistics)"
    by blast
  with same have kept: "filter (\<lambda>r. date r = ''2024-01-01'')
       (statistics (run [Complete ''2024-01-01'' 300 ''HOSP-20240101-001'',
                         Update_statistics ''2024-01-01'' 500] store_with_statistics))
     = statistics store_with_statistics"
    by simp
  from concl one have dist: "distinct (map date
       (statistics (run [Complete ''2024-01-01'' 300 ''HOSP-20240101-001'',
                         Update_statistics ''2024-01-01'' 500] store_with_statistics)))"
    by blast
  from rows finished kept dist show ?thesis by (intro conjI)
qed

section \<open>Registration\<close>

text \<open>
  C7, as the claim states it, fails: a registration with the empty name succeeds on a
  new store, returns a token and inserts a waiting patient whose name is empty.
\<close>

theorem register_patient_empty_name_counterexample:
  "map_sum id fst
     (register_patient ''20240101'' 100 [] None None False False None init_database)
    = Inr ''HOSP-20240101-001'' \<and>
   map (\<lambda>p. (token_number p, full_name p, status p))
     (patients (perform (Register ''20240101'' 100 [] None None False False None) init_database))
    = [(''HOSP-20240101-001'', [], waiting)]"
  by code_simp

text \<open>
  C7, amended. \<^verbatim>\<open>register_patient\<close> and \<^verbatim>\<open>add_patient\<close> do not look at the name. The
  outcome of a registration is decided by the token alone: it fails with the error of
  \<^verbatim>\<open>generate_token\<close> if that fails, it fails with \<^verbatim>\<open>IntegrityError\<close> if the generated
  token is already in the table, and otherwise it succeeds for every name, the empty
  string included: it returns the token and appends a waiting patient with that token
  and that name.
\<close>

theorem register_patient_any_name:
  "(case generate_token today None s of
      Inl e \<Rightarrow> register_patient today now name age_in condition emergency followup dept s = Inl e
    | Inr token \<Rightarrow>
        if token \<in> set (map token_number (patients s))
        then register_patient today now name age_in condition emergency followup dept s
               = Inl IntegrityError
        else \<exists>row s'.
               register_patient today now name age_in condition emergency followup dept s
                 = Inr (token, s') \<and>
               patients s' = patients s @ [row] \<and>
               token_number row = token \<and> full_name row = name \<and> status row = waiting)"
  by (simp add: register_patient_def add_patient_def insert_allowed_def Let_def
      split: sum.splits)

lemma generate_token_first:
  "generate_token ''20240101'' None init_database = Inr ''HOSP-20240101-001''"
  by code_simp

theorem register_patient_any_name_witness:
  "generate_token ''20240101'' None init_database = Inr ''HOSP-20240101-001'' \<and>
   patients init_database = [] \<and>
   map_sum id fst
     (register_patient ''20240101'' 100 [] None None False False None init_database)
    = Inr ''HOSP-20240101-001''"
proof -
  have none: "patients init_database = []" by (simp add: init_database_def)
  from register_patient_any_name
    [where today = "''20240101''" and s = init_database and now = 100 and name = "[]"
       and age_in = None and condition = None and emergency = False and followup = False
       and dept = None]
  obtain row s' where
    "register_patient ''20240101'' 100 [] None None False False None init_database
       = Inr (''HOSP-20240101-001'', s')"
    unfolding generate_token_first using none by auto
  then have "map_sum id fst
     (register_patient ''20240101'' 100 [] None None False False None init_database)
    = Inr ''HOSP-20240101-001''"
    by simp
  with generate_token_first none show ?thesis by (intro conjI)
qed

section \<open>Estimated wait\<close>

lemma counted_never_more_urgent:
  "counted_ahead now priority dept q \<Longrightarrow> priority \<le> priority_level q"
  unfolding counted_ahead_def by linarith

lemma register_emergency_after_regulars:
  "map (\<lambda>p. (token_number p, priority_level p, estimated_wait_time p))
      (patients (perform (Register ''20240101'' 200 ''Eve'' None None True False None)
                   store_three_regular))
     = [(''HOSP-20240101-001'', 2, 20), (''HOSP-20240101-002'', 2, 35),
        (''HOSP-20240101-003'', 2, 50), (''HOSP-20240101-004'', 1, 45)] \<and>
   get_queue_position ''HOSP-20240101-004''
      (perform (Register ''20240101'' 200 ''Eve'' None None True False None)
         store_three_regular) = 1"
  by code_simp

text \<open>
  C1. The code at the claim's own example: with three Regular patients waiting,
  \<^verbatim>\<open>calculate_wait_time\<close> for an Emergency arrival (priority 1, no department) counts
  the three Regular patients and returns 45, where the claim has no patient ahead and
  0 minutes. The comparison \<^verbatim>\<open>priority_level > ?\<close> counts the patients of a less urgent
  class, not those of a more urgent one (\<open>counted_never_more_urgent\<close>);
  \<^verbatim>\<open>get_queue_position\<close> puts the same arrival at position 1
  (\<open>register_emergency_after_regulars\<close>).
\<close>

theorem calculate_wait_time_emergency_behind_regulars:
  "map (\<lambda>p. (token_number p, priority_level p, status p, estimated_wait_time p))
      (patients store_three_regular)
     = [(''HOSP-20240101-001'', 2, waiting, 20), (''HOSP-20240101-002'', 2, waiting, 35),
        (''HOSP-20240101-003'', 2, waiting, 50)] \<and>
   patients_ahead 200 1 None store_three_regular = 3 \<and>
   calculate_wait_time 200 1 None store_three_regular = 45"
  by code_simp

section \<open>Token numbers\<close>

subsection \<open>Three-digit numbers\<close>

lemma digit_char_zero: "digit_char 0 = CHR ''0''"
  by (simp add: digit_char_def)

lemma digit_char_facts:
  assumes "d < 10"
  shows "digit_val (digit_char d) = Some d" and "digit_char d \<noteq> CHR ''-''"
proof -
  have "list_all (\<lambda>d. digit_val (digit_char d) = Some d \<and> digit_char d \<noteq> CHR ''-'') [0..<10]"
    by code_simp
  with assms show "digit_val (digit_char d) = Some d" and "digit_char d \<noteq> CHR ''-''"
    by (simp_all add: list_all_iff)
qed

lemma digit_char_less:
  assumes "a < b" and "b < 10"
  shows "digit_char a < digit_char b"
proof -
  have "list_all (\<lambda>b. list_all (\<lambda>a. digit_char a < digit_char b) [0..<b]) [0..<10]"
    by code_simp
  with assms show ?thesis
    by (simp add: list_all_iff)
qed

lemma decimal_small: "n < 10 \<Longrightarrow> decimal n = [digit_char n]"
  by (subst decimal.simps) simp

lemma decimal_large:
  "\<not> n < 10 \<Longrightarrow> decimal n = decimal (n div 10) @ [digit_char (n mod 10)]"
  by (subst decimal.simps) simp

lemma format_digits:
  assumes "n < 1000"
  shows "format_03d n =
           [digit_char (n div 100), digit_char (n div 10 mod 10), digit_char (n mod 10)]"
proof -
  consider "n < 10" | "10 \<le> n" "n < 100" | "100 \<le> n"
    by linarith
  then show ?thesis
  proof cases
    case 1
    then show ?thesis
      by (simp add: format_03d_def decimal_small digit_char_zero numeral_2_eq_2)
  next
    case 2
    then have "decimal n = [digit_char (n div 10), digit_char (n mod 10)]"
      by (simp add: decimal_large decimal_small)
    with 2 show ?thesis
      by (simp add: format_03d_def digit_char_zero)
  next
    case 3
    with assms have "\<not> n < 10" and "\<not> n div 10 < 10" and "n div 10 div 10 < 10"
      by simp_all
    then have "decimal n =
        [digit_char (n div 10 div 10), digit_char (n div 10 mod 10), digit_char (n mod 10)]"
      by (simp add: decimal_large decimal_small)
    then show ?thesis
      by (simp add: format_03d_def div_mult2_eq [symmetric])
  qed
qed

lemma three_digits: "100 * (n div 100) + 10 * (n div 10 mod 10) + n mod 10 = (n :: nat)"
proof -
  have "n = 10 * (n div 10) + n mod 10"
    by simp
  moreover have "n div 10 = 10 * (n div 10 div 10) + n div 10 mod 10"
    by simp
  moreover have "n div 10 div 10 = n div 100"
    by (simp add: div_mult2_eq [symmetric])
  ultimately show ?thesis
    by linarith
qed

lemma digits_le:
  assumes "100 * a + 10 * b + c \<le> 100 * a' + 10 * b' + (c' :: nat)"
    and "b < 10" and "c < 10" and "a' < 10" and "b' < 10" and "c' < 10"
  shows "[digit_char a, digit_char b, digit_char c]
           \<le> [digit_char a', digit_char b', digit_char c']"
proof -
  consider "a < a'" | "a = a'" "b < b'" | "a = a'" "b = b'" "c < c'" | "a = a'" "b = b'" "c = c'"
    using assms by linarith
  then show ?thesis
  proof cases
    case 1
    then show ?thesis
      using digit_char_less [of a a'] assms by simp
  next
    case 2
    then show ?thesis
      using digit_char_less [of b b'] assms by simp
  next
    case 3
    then show ?thesis
      using digit_char_less [of c c'] assms by simp
  next
    case 4
    then show ?thesis
      by simp
  qed
qed

text \<open>Below 1000 the byte order of the formatted numbers is the order of the numbers.\<close>

lemma format_mono:
  assumes "m \<le> n" and "n < 1000"
  shows "format_03d m \<le> format_03d n"
proof -
  from assms have m: "m < 1000"
    by simp
  have "100 * (m div 100) + 10 * (m div 10 mod 10) + m mod 10
          \<le> 100 * (n div 100) + 10 * (n div 10 mod 10) + n mod 10"
    unfolding three_digits by (rule assms(1))
  moreover have "n div 100 < 10"
    using assms(2) by simp
  ultimately show ?thesis
    unfolding format_digits [OF m] format_digits [OF assms(2)]
    by (intro digits_le) simp_all
qed

lemma last_segment_format:
  assumes "n < 1000"
  shows "last_segment (''HOSP-20240101-'' @ format_03d n) = format_03d n"
  using assms digit_char_facts(2) [of "n div 100"] digit_char_facts(2) [of "n div 10 mod 10"]
    digit_char_facts(2) [of "n mod 10"]
  by (simp add: format_digits last_segment_def)

lemma py_int_format:
  assumes "n < 1000"
  shows "py_int (format_03d n) = Some n"
  using assms digit_char_facts(1) [of "n div 100"] digit_char_facts(1) [of "n div 10 mod 10"]
    digit_char_facts(1) [of "n mod 10"] three_digits [of n]
  by (simp add: format_digits py_int_def)

lemma format_999: "format_03d 999 = ''999''"
  by code_simp

lemma format_thousand: "format_03d 1000 = ''1000''"
  by code_simp

lemma py_int_thousand: "py_int ''1000'' = Some 1000"
  by code_simp

lemma format_inject:
  assumes "format_03d m = format_03d n" and "m \<le> 1000" and "n \<le> 1000"
  shows "m = n"
proof -
  have "py_int (format_03d k) = Some k" if "k \<le> 1000" for k
  proof (cases "k < 1000")
    case True
    then show ?thesis
      by (rule py_int_format)
  next
    case False
    with that have "k = 1000"
      by simp
    then show ?thesis
      by (simp add: format_thousand py_int_thousand)
  qed
  note parse = this
  have "Some m = py_int (format_03d m)"
    using assms(2) by (simp only: parse)
  also have "\<dots> = py_int (format_03d n)"
    by (simp only: assms(1))
  also have "\<dots> = Some n"
    using assms(3) by (simp only: parse)
  finally show ?thesis
    by (simp only: option.inject)
qed

subsection \<open>The sequence of tokens\<close>

lemma like_percent: "like ''%'' t"
  by (induction t) simp_all

lemma like_today: "like ''HOSP-20240101-%'' (''HOSP-20240101-'' @ t)"
  by (simp add: ascii_lower_def like_percent)

lemma append_le_mono: "(a :: string) \<le> b \<Longrightarrow> p @ a \<le> p @ b"
  by (induction p) simp_all

lemma greatest_max:
  assumes "m \<in> set xs" and "\<And>x. x \<in> set xs \<Longrightarrow> x \<le> m"
  shows "greatest xs = Some m"
proof (cases xs)
  case Nil
  with assms(1) show ?thesis
    by simp
next
  case (Cons y ys)
  have "fold max ys y = Max (set (y # ys))"
    by (rule Max.set_eq_fold [symmetric])
  also have "\<dots> = m"
    using assms Cons by (intro Max_eqI) simp_all
  finally show ?thesis
    using Cons by simp
qed

lemma token_prefix_today: "token_prefix ''20240101'' None = ''HOSP-20240101-''"
  by (simp add: token_prefix_def)

lemma numbered_like:
  "filter (like (''HOSP-20240101-'' @ ''%'')) (numbered k) = numbered k"
  unfolding numbered_def using like_today by (intro filter_True) auto

lemma numbered_mem:
  assumes "1 \<le> n" and "n \<le> k"
  shows "''HOSP-20240101-'' @ format_03d n \<in> set (numbered k)"
proof -
  from assms have "n \<in> set [1..<Suc k]"
    by auto
  then show ?thesis
    unfolding numbered_def set_map by (rule imageI)
qed

lemma numbered_elim:
  assumes "x \<in> set (numbered k)"
  obtains n where "1 \<le> n" and "n \<le> k" and "x = ''HOSP-20240101-'' @ format_03d n"
proof -
  from assms have "x \<in> (\<lambda>n. ''HOSP-20240101-'' @ format_03d n) ` set [1..<Suc k]"
    by (simp only: numbered_def set_map)
  then obtain n where x: "x = ''HOSP-20240101-'' @ format_03d n" and mem: "n \<in> set [1..<Suc k]"
    by (rule imageE)
  from mem have "1 \<le> n" and "n \<le> k"
    by auto
  then show ?thesis
    using x by (rule that)
qed

lemma numbered_Suc: "numbered (Suc k) = numbered k @ [''HOSP-20240101-'' @ format_03d (Suc k)]"
  by (simp add: numbered_def)

text \<open>
  Up to 999 registrations under the prefix, \<^verbatim>\<open>generate_token\<close> returns the next number:
  the greatest token in byte order is the one with the greatest number.
\<close>

lemma generate_token_sequence:
  assumes "k < 1000" and "map token_number (patients s) = numbered k"
  shows "generate_token ''20240101'' None s = Inr (''HOSP-20240101-'' @ format_03d (Suc k))"
proof (cases "k = 0")
  case True
  then have "map token_number (patients s) = []"
    using assms(2) by (simp add: numbered_def)
  then show ?thesis
    unfolding generate_token_def Let_def token_prefix_today using True by simp
next
  case False
  then have "''HOSP-20240101-'' @ format_03d k \<in> set (numbered k)"
    by (intro numbered_mem) simp_all
  moreover have "x \<le> ''HOSP-20240101-'' @ format_03d k" if "x \<in> set (numbered k)" for x
  proof -
    from that obtain n where n: "n \<le> k" and x: "x = ''HOSP-20240101-'' @ format_03d n"
      by (rule numbered_elim)
    from n assms(1) have "format_03d n \<le> format_03d k"
      by (rule format_mono)
    then have "''HOSP-20240101-'' @ format_03d n \<le> ''HOSP-20240101-'' @ format_03d k"
      by (rule append_le_mono)
    then show ?thesis
      by (simp only: x)
  qed
  ultimately have top: "greatest (numbered k) = Some (''HOSP-20240101-'' @ format_03d k)"
    by (rule greatest_max)
  show ?thesis
    unfolding generate_token_def Let_def token_prefix_today assms(2) numbered_like top
      option.case last_segment_format [OF assms(1)] py_int_format [OF assms(1)]
    by simp
qed

text \<open>
  With 1000 tokens the greatest in byte order is number 999, since \<^verbatim>\<open>'1000' < '999'\<close> as
  text: the number returned is 1000 again.
\<close>

lemma generate_token_thousand:
  assumes "map token_number (patients s) = numbered 1000"
  shows "generate_token ''20240101'' None s = Inr ''HOSP-20240101-1000''"
proof -
  have "''HOSP-20240101-'' @ format_03d 999 \<in> set (numbered 1000)"
    by (intro numbered_mem) simp_all
  moreover have "x \<le> ''HOSP-20240101-'' @ format_03d 999" if "x \<in> set (numbered 1000)" for x
  proof -
    from that obtain n where n: "n \<le> 1000" and x: "x = ''HOSP-20240101-'' @ format_03d n"
      by (rule numbered_elim)
    have "format_03d n \<le> format_03d 999"
    proof (cases "n = 1000")
      case True
      then show ?thesis
        by (simp add: format_thousand format_999)
    next
      case False
      with n have "n \<le> 999"
        by simp
      then show ?thesis
        by (rule format_mono) simp
    qed
    then have "''HOSP-20240101-'' @ format_03d n \<le> ''HOSP-20240101-'' @ format_03d 999"
      by (rule append_le_mono)
    then show ?thesis
      by (simp only: x)
  qed
  ultimately have top: "greatest (numbered 1000) = Some (''HOSP-20240101-'' @ format_03d 999)"
    by (rule greatest_max)
  have small: "(999 :: nat) < 1000"
    by simp
  show ?thesis
    unfolding generate_token_def Let_def token_prefix_today assms numbered_like top
      option.case last_segment_format [OF small] py_int_format [OF small]
    by (simp add: format_thousand)
qed

lemma numbered_fresh:
  assumes "k < 1000"
  shows "''HOSP-20240101-'' @ format_03d (Suc k) \<notin> set (numbered k)"
proof
  assume "''HOSP-20240101-'' @ format_03d (Suc k) \<in> set (numbered k)"
  then obtain n where n: "n \<le> k"
    and eq: "''HOSP-20240101-'' @ format_03d (Suc k) = ''HOSP-20240101-'' @ format_03d n"
    by (rule numbered_elim)
  from eq have "format_03d (Suc k) = format_03d n"
    by (simp only: same_append_eq)
  moreover from assms n have "Suc k \<le> 1000" and "n \<le> 1000"
    by simp_all
  ultimately have "Suc k = n"
    by (rule format_inject)
  with n show False
    by simp
qed

lemma register_patient_appends:
  assumes "generate_token today None s = Inr token"
    and "token \<notin> set (map token_number (patients s))"
  shows "\<exists>s'. register_patient today now name age_in condition False False dept s
                = Inr (token, s') \<and>
              map token_number (patients s') = map token_number (patients s) @ [token]"
  using assms
  by (simp add: register_patient_def add_patient_def insert_allowed_def Let_def)

lemma register_patient_duplicate:
  assumes "generate_token today None s = Inr token"
    and "token \<in> set (map token_number (patients s))"
  shows "register_patient today now name age_in condition False False dept s
           = Inl IntegrityError"
  using assms
  by (simp add: register_patient_def add_patient_def insert_allowed_def Let_def)

lemma perform_walk_in:
  assumes "register_patient ''20240101'' 100 ''A. Patient'' None None False False None s
             = Inr (token, s')"
  shows "perform walk_in s = s'"
  using assms by (simp add: walk_in_def)

lemma numbered_length:
  assumes "map token_number (patients s) = numbered k"
  shows "length (patients s) = k"
  using arg_cong [OF assms, of length] by (simp add: numbered_def)

lemma run_replicate_Suc:
  "run (replicate (Suc k) x) s = perform x (run (replicate k x) s)"
proof -
  have "replicate (Suc k) x = replicate k x @ [x]"
    by (simp add: replicate_append_same)
  then show ?thesis
    unfolding run_def by (simp only: fold_append fold_simps comp_apply id_apply)
qed

text \<open>The tokens after \<open>k\<close> registrations on a new store, as long as \<open>k\<close> is at most 1000.\<close>

lemma run_walk_in_tokens:
  "k \<le> 1000 \<Longrightarrow>
   map token_number (patients (run (replicate k walk_in) init_database)) = numbered k"
proof (induction k)
  case 0
  then show ?case
    by (simp add: run_def init_database_def numbered_def)
next
  case (Suc k)
  let ?s = "run (replicate k walk_in) init_database"
  from Suc have k: "k < 1000" and tokens: "map token_number (patients ?s) = numbered k"
    by simp_all
  have "generate_token ''20240101'' None ?s = Inr (''HOSP-20240101-'' @ format_03d (Suc k))"
    using k tokens by (rule generate_token_sequence)
  moreover have "''HOSP-20240101-'' @ format_03d (Suc k) \<notin> set (map token_number (patients ?s))"
    unfolding tokens using k by (rule numbered_fresh)
  ultimately obtain s' where
    reg: "register_patient ''20240101'' 100 ''A. Patient'' None None False False None ?s
            = Inr (''HOSP-20240101-'' @ format_03d (Suc k), s')"
    and new: "map token_number (patients s')
            = map token_number (patients ?s) @ [''HOSP-20240101-'' @ format_03d (Suc k)]"
    using register_patient_appends by blast
  from reg have "perform walk_in ?s = s'"
    by (rule perform_walk_in)
  then show ?case
    unfolding run_replicate_Suc using new tokens by (simp only: numbered_Suc)
qed

text \<open>
  C3 fails at the thousandth token. On a new store, 999 registrations of one day under
  one prefix leave the tokens 001 to 999, and \<^verbatim>\<open>generate_token\<close> then returns
  \<^verbatim>\<open>HOSP-20240101-1000\<close>. After the registration that takes this token,
  \<^verbatim>\<open>generate_token\<close> returns \<^verbatim>\<open>HOSP-20240101-1000\<close> a second time: two successive calls
  with one registration between them produce the same token. The registration that
  receives it raises \<^verbatim>\<open>IntegrityError\<close> and the table stays at 1000 rows.
\<close>

theorem generate_token_collides_after_999:
  "generate_token ''20240101'' None (run (replicate 999 walk_in) init_database)
     = Inr ''HOSP-20240101-1000'' \<and>
   generate_token ''20240101'' None (run (replicate 1000 walk_in) init_database)
     = Inr ''HOSP-20240101-1000'' \<and>
   run (replicate 1000 walk_in) init_database
     = perform walk_in (run (replicate 999 walk_in) init_database) \<and>
   length (patients (run (replicate 999 walk_in) init_database)) = 999 \<and>
   length (patients (run (replicate 1000 walk_in) init_database)) = 1000 \<and>
   register_patient ''20240101'' 100 ''A. Patient'' None None False False None
       (run (replicate 1000 walk_in) init_database)
     = Inl IntegrityError"
proof -
  let ?s999 = "run (replicate 999 walk_in) init_database"
  let ?s1000 = "run (replicate 1000 walk_in) init_database"
  have t999: "map token_number (patients ?s999) = numbered 999"
    by (rule run_walk_in_tokens) simp
  have t1000: "map token_number (patients ?s1000) = numbered 1000"
    by (rule run_walk_in_tokens) simp
  have "(999 :: nat) < 1000"
    by simp
  then have "generate_token ''20240101'' None ?s999
          = Inr (''HOSP-20240101-'' @ format_03d (Suc 999))"
    using t999 by (rule generate_token_sequence)
  moreover have "''HOSP-20240101-'' @ format_03d (Suc 999) = ''HOSP-20240101-1000''"
    by (simp add: format_thousand)
  ultimately have g999: "generate_token ''20240101'' None ?s999 = Inr ''HOSP-20240101-1000''"
    by (simp only:)
  have g1000: "generate_token ''20240101'' None ?s1000 = Inr ''HOSP-20240101-1000''"
    using t1000 by (rule generate_token_thousand)
  have next_number: "(1000 :: nat) = Suc 999"
    by simp
  have step: "?s1000 = perform walk_in ?s999"
    by (simp only: next_number run_replicate_Suc)
  have l999: "length (patients ?s999) = 999"
    using t999 by (rule numbered_length)
  have l1000: "length (patients ?s1000) = 1000"
    using t1000 by (rule numbered_length)
  have "''HOSP-20240101-'' @ format_03d 1000 \<in> set (numbered 1000)"
    by (intro numbered_mem) simp_all
  then have "''HOSP-20240101-1000'' \<in> set (numbered 1000)"
    by (simp add: format_thousand)
  then have dup: "''HOSP-20240101-1000'' \<in> set (map token_number (patients ?s1000))"
    by (simp only: t1000)
  have raise: "register_patient ''20240101'' 100 ''A. Patient'' None None False False None ?s1000
      = Inl IntegrityError"
    using g1000 dup by (rule register_patient_duplicate)
  from g999 g1000 step l999 l1000 raise show ?thesis
    by (intro conjI)
qed

end
